theory Spec2Isabelle
  imports Complex_Main
begin

section \<open>Numbers, vectors and the library arithmetic the sources call\<close>

text \<open>
  JavaScript numbers are modelled as real numbers: rounding, NaN and the infinities of
  IEEE doubles are outside the model. \<open>Math.max\<close>, \<open>Math.min\<close>, \<open>Math.abs\<close>,
  \<open>Math.sin\<close>, \<open>Math.cos\<close>, \<open>Math.acos\<close>, \<open>Math.sqrt\<close> and \<open>Math.PI\<close> are the
  HOL constants \<open>max\<close>, \<open>min\<close>, \<open>abs\<close>, \<open>sin\<close>, \<open>cos\<close>, \<open>arccos\<close>, \<open>sqrt\<close>
  and \<open>pi\<close>.
\<close>

record vec3 =
  vx :: real
  vy :: real
  vz :: real

text \<open>
  Modelled from the spec: the vector class \<open>THREE.Vector3\<close> belongs to the rendering
  library and is not among the sources. Its constructor, \<open>v.multiplyScalar(k)\<close>
  ("unit scaled by the radius"), \<open>v.add(w)\<close>, \<open>v.length()\<close>, \<open>v.distanceTo(w)\<close> (the
  3D distance), \<open>v.lerp(w, alpha)\<close> (a blend towards \<open>w\<close> by \<open>alpha\<close>) and
  \<open>v.normalize()\<close> (division by the length, or by 1 for the zero vector) are the
  componentwise operations on three real coordinates.
\<close>

definition Vector3 :: "real \<Rightarrow> real \<Rightarrow> real \<Rightarrow> vec3" where
  "Vector3 x y z = \<lparr>vx = x, vy = y, vz = z\<rparr>"

definition multiplyScalar :: "vec3 \<Rightarrow> real \<Rightarrow> vec3" where
  "multiplyScalar v k = \<lparr>vx = vx v * k, vy = vy v * k, vz = vz v * k\<rparr>"

definition add :: "vec3 \<Rightarrow> vec3 \<Rightarrow> vec3" where
  "add v w = \<lparr>vx = vx v + vx w, vy = vy v + vy w, vz = vz v + vz w\<rparr>"

definition vlength :: "vec3 \<Rightarrow> real" where
  "vlength v = sqrt (vx v * vx v + vy v * vy v + vz v * vz v)"

definition distanceTo :: "vec3 \<Rightarrow> vec3 \<Rightarrow> real" where
  "distanceTo v w =
     sqrt ((vx v - vx w) * (vx v - vx w) + (vy v - vy w) * (vy v - vy w)
           + (vz v - vz w) * (vz v - vz w))"

definition vlerp :: "vec3 \<Rightarrow> vec3 \<Rightarrow> real \<Rightarrow> vec3" where
  "vlerp v w alpha =
     \<lparr>vx = vx v + (vx w - vx v) * alpha,
      vy = vy v + (vy w - vy v) * alpha,
      vz = vz v + (vz w - vz v) * alpha\<rparr>"

definition normalize :: "vec3 \<Rightarrow> vec3" where
  "normalize v =
     (let l = (if vlength v = 0 then 1 else vlength v)
      in \<lparr>vx = vx v / l, vy = vy v / l, vz = vz v / l\<rparr>)"

text \<open>
  Modelled from the spec: \<open>THREE.MathUtils.lerp\<close> belongs to the rendering library and is
  not among the sources. The source's comment calls it linear interpolation
  towards the target; it is \<open>(1 - t) * x + t * y\<close>.
\<close>

definition lerp :: "real \<Rightarrow> real \<Rightarrow> real \<Rightarrow> real" where
  "lerp x y t = (1 - t) * x + t * y"

section \<open>The sphere component (DiscoBall)\<close>

subsection \<open>Data\<close>

record hole =
  hole_id :: nat
  hole_theta :: real
  hole_phi :: real
  hole_direction :: vec3
  hole_position :: vec3
  hole_normal :: vec3

record rotationConfig =
  speedTransitionRate :: real
  minSpeed :: real
  maxSpeed :: real
  xAxisFactor :: real
  zAxisFactor :: real

record euler =
  rot_x :: real
  rot_y :: real
  rot_z :: real

text \<open>A cosmetic child mesh created by \<open>createHoleVisuals\<close>: its position and the
  point it is turned towards.\<close>

record holeVisual =
  hv_index :: nat
  hv_position :: vec3
  hv_lookAt :: vec3

text \<open>The mesh object: the fields of the scene object the sources read and write.\<close>

record object3d =
  mesh_position :: vec3
  mesh_rotation :: euler
  mesh_children :: "holeVisual list"

text \<open>The vertex data of the sphere geometry: for each vertex index, the position and
  the normal stored at that index.\<close>

record geometry =
  vertices :: "(vec3 \<times> vec3) list"

record discoBallConfig =
  radius :: real
  segments :: real
  cfg_holes :: real
  metalness :: real
  roughness :: real
  color :: real
  envMapIntensity :: real

text \<open>The constructor's argument: an object in which each property may be absent.\<close>

record discoBallOptions =
  opt_radius :: "real option"
  opt_segments :: "real option"
  opt_holes :: "real option"
  opt_metalness :: "real option"
  opt_roughness :: "real option"
  opt_color :: "real option"
  opt_envMapIntensity :: "real option"

record discoBall =
  config :: discoBallConfig
  geometry :: "geometry option"
  material :: bool
  mesh :: "object3d option"
  holes :: "hole list"
  rotationSpeed :: real
  targetRotationSpeed :: real
  rotationDirection :: real
  currentRotation :: euler
  rotationConfig :: rotationConfig

subsection \<open>The rotation controller\<close>

text \<open>\<open>updateRotationSpeed(deltaTime)\<close>\<close>

definition updateRotationSpeed :: "discoBall \<Rightarrow> real \<Rightarrow> discoBall" where
  "updateRotationSpeed s deltaTime =
     (if \<bar>rotationSpeed s - targetRotationSpeed s\<bar> > 0.01 then
        (let transitionRate = speedTransitionRate (rotationConfig s) * (deltaTime * 0.001)
         in s\<lparr>rotationSpeed :=
                 lerp (rotationSpeed s) (targetRotationSpeed s) (min transitionRate 1.0)\<rparr>)
      else s\<lparr>rotationSpeed := targetRotationSpeed s\<rparr>)"

text \<open>\<open>updateRotation(deltaTime)\<close>: nothing happens without a mesh; otherwise the speed is
  smoothed first, the three angles are advanced, and the angles are written to the mesh.\<close>

definition updateRotation :: "discoBall \<Rightarrow> real \<Rightarrow> discoBall" where
  "updateRotation s deltaTime =
     (case mesh s of
        None \<Rightarrow> s
      | Some m \<Rightarrow>
          (let s1 = updateRotationSpeed s deltaTime;
               rotationDelta = rotationSpeed s1 * rotationDirection s1 * deltaTime * 0.001;
               y' = rot_y (currentRotation s1) + rotationDelta;
               x' = rot_x (currentRotation s1)
                      + rotationDelta * xAxisFactor (rotationConfig s1);
               z' = rot_z (currentRotation s1)
                      + sin (y' * 2) * zAxisFactor (rotationConfig s1) * rotationDelta;
               r' = \<lparr>rot_x = x', rot_y = y', rot_z = z'\<rparr>
           in s1\<lparr>currentRotation := r', mesh := Some (m\<lparr>mesh_rotation := r'\<rparr>)\<rparr>))"

text \<open>\<open>setRotationSpeed(speed)\<close> and \<open>setRotationSpeedImmediate(speed)\<close>\<close>

definition setRotationSpeed :: "discoBall \<Rightarrow> real \<Rightarrow> discoBall" where
  "setRotationSpeed s speed =
     s\<lparr>targetRotationSpeed :=
         max (minSpeed (rotationConfig s)) (min (maxSpeed (rotationConfig s)) speed)\<rparr>"

definition setRotationSpeedImmediate :: "discoBall \<Rightarrow> real \<Rightarrow> discoBall" where
  "setRotationSpeedImmediate s speed =
     (let clampedSpeed =
            max (minSpeed (rotationConfig s)) (min (maxSpeed (rotationConfig s)) speed)
      in s\<lparr>rotationSpeed := clampedSpeed, targetRotationSpeed := clampedSpeed\<rparr>)"

text \<open>\<open>setRotationDirection(direction)\<close>\<close>

definition setRotationDirection :: "discoBall \<Rightarrow> real \<Rightarrow> discoBall" where
  "setRotationDirection s direction =
     s\<lparr>rotationDirection := (if direction > 0 then 1 else -1)\<rparr>"

text \<open>\<open>stopRotation()\<close> and \<open>stopRotationImmediate()\<close>\<close>

definition stopRotation :: "discoBall \<Rightarrow> discoBall" where
  "stopRotation s = setRotationSpeed s 0"

definition stopRotationImmediate :: "discoBall \<Rightarrow> discoBall" where
  "stopRotationImmediate s = setRotationSpeedImmediate s 0"

text \<open>\<open>setRotationConfig(config)\<close>: the argument's properties, where present, replace
  the stored ones (object spread); nothing is validated.\<close>

record rotationConfigPatch =
  p_speedTransitionRate :: "real option"
  p_minSpeed :: "real option"
  p_maxSpeed :: "real option"
  p_xAxisFactor :: "real option"
  p_zAxisFactor :: "real option"

definition spread :: "'a \<Rightarrow> 'a option \<Rightarrow> 'a" where
  "spread old new = (case new of None \<Rightarrow> old | Some v \<Rightarrow> v)"

definition setRotationConfig :: "discoBall \<Rightarrow> rotationConfigPatch \<Rightarrow> discoBall" where
  "setRotationConfig s p =
     s\<lparr>rotationConfig :=
         \<lparr>speedTransitionRate =
            spread (speedTransitionRate (rotationConfig s)) (p_speedTransitionRate p),
          minSpeed = spread (minSpeed (rotationConfig s)) (p_minSpeed p),
          maxSpeed = spread (maxSpeed (rotationConfig s)) (p_maxSpeed p),
          xAxisFactor = spread (xAxisFactor (rotationConfig s)) (p_xAxisFactor p),
          zAxisFactor = spread (zAxisFactor (rotationConfig s)) (p_zAxisFactor p)\<rparr>\<rparr>"

subsection \<open>Aperture placement\<close>

text \<open>
  \<open>generateHoles()\<close>. The body of the \<open>for\<close> loop at index \<open>i\<close> builds one record;
  the loop runs while \<open>i < numHoles\<close>, where \<open>numHoles\<close> is whatever number the
  configuration holds. \<open>Math.acos\<close> outside \<open>[-1, 1]\<close> is NaN in the source and
  unspecified here.
\<close>

definition goldenRatio :: real where
  "goldenRatio = (1 + sqrt 5) / 2"

definition makeHole :: "real \<Rightarrow> real \<Rightarrow> nat \<Rightarrow> hole" where
  "makeHole numHoles r i =
     (let theta = 2 * pi * real i / goldenRatio;
          phi = arccos (1 - 2 * (real i + 0.5) / numHoles);
          x = sin phi * cos theta;
          y = sin phi * sin theta;
          z = cos phi;
          position = Vector3 x y z;
          worldPosition = multiplyScalar position r
      in \<lparr>hole_id = i, hole_theta = theta, hole_phi = phi, hole_direction = position,
          hole_position = worldPosition, hole_normal = position\<rparr>)"

function generateHoles_loop :: "real \<Rightarrow> real \<Rightarrow> nat \<Rightarrow> hole list \<Rightarrow> hole list" where
  "generateHoles_loop numHoles r i acc =
     (if real i < numHoles
      then generateHoles_loop numHoles r (i + 1) (acc @ [makeHole numHoles r i])
      else acc)"
  by pat_completeness auto
termination
  by (relation "measure (\<lambda>(numHoles, r, i, acc). nat \<lceil>numHoles\<rceil> - i)") (auto, linarith)

declare generateHoles_loop.simps [simp del]

definition generateHoles :: "discoBall \<Rightarrow> discoBall" where
  "generateHoles s =
     s\<lparr>holes := generateHoles_loop (cfg_holes (config s)) (radius (config s)) 0 []\<rparr>"

subsection \<open>Geometry, mesh and construction\<close>

text \<open>
  \<open>createGeometry()\<close>: the vertex data come from the library's sphere constructor
  (followed by its normal computation), which is not among the sources and is taken as
  the parameter \<open>SphereGeometry\<close>.
\<close>

definition createGeometry :: "(real \<Rightarrow> real \<Rightarrow> real \<Rightarrow> geometry) \<Rightarrow> discoBall \<Rightarrow> discoBall" where
  "createGeometry SphereGeometry s =
     s\<lparr>geometry :=
         Some (SphereGeometry (radius (config s)) (segments (config s)) (segments (config s)))\<rparr>"

text \<open>\<open>createHoleGeometry()\<close>: for each aperture in turn, every vertex closer than
  \<open>holeRadius\<close> to the aperture's centre is pushed inwards and its normal is bent.\<close>

definition holeRadius :: real where "holeRadius = 0.35"
definition holeDepth :: real where "holeDepth = 0.3"

definition carveVertex :: "real \<Rightarrow> hole \<Rightarrow> vec3 \<times> vec3 \<Rightarrow> vec3 \<times> vec3" where
  "carveVertex r h vn =
     (let holeCenter = multiplyScalar (hole_direction h) r;
          vertex = fst vn;
          normal = snd vn;
          distance = distanceTo vertex holeCenter
      in if distance < holeRadius then
           (let factor = 1 - (distance / holeRadius);
                depthFactor = factor ^ 2 * holeDepth;
                inwardDirection = multiplyScalar (hole_direction h) (- depthFactor)
            in (add vertex inwardDirection,
                normalize (vlerp normal (multiplyScalar (hole_direction h) (-1)) (factor * 0.3))))
         else vn)"

definition createHoleGeometry :: "discoBall \<Rightarrow> discoBall" where
  "createHoleGeometry s =
     (case geometry s of
        None \<Rightarrow> s
      | Some g \<Rightarrow>
          if length (holes s) = 0 then s
          else s\<lparr>geometry :=
                   Some (g\<lparr>vertices :=
                       foldl (\<lambda>vs h. map (carveVertex (radius (config s)) h) vs)
                         (vertices g) (holes s)\<rparr>)\<rparr>)"

text \<open>\<open>createMaterial()\<close> and \<open>createMesh()\<close>\<close>

definition createMaterial :: "discoBall \<Rightarrow> discoBall" where
  "createMaterial s = s\<lparr>material := True\<rparr>"

definition createMesh :: "discoBall \<Rightarrow> discoBall" where
  "createMesh s =
     s\<lparr>mesh := Some \<lparr>mesh_position = Vector3 0 0 0,
                       mesh_rotation = \<lparr>rot_x = 0, rot_y = 0, rot_z = 0\<rparr>,
                       mesh_children = []\<rparr>\<rparr>"

text \<open>\<open>createHoleVisuals()\<close>: one child per aperture, in order.\<close>

definition makeHoleVisual :: "real \<Rightarrow> hole \<times> nat \<Rightarrow> holeVisual" where
  "makeHoleVisual r hi =
     \<lparr>hv_index = snd hi,
      hv_position = multiplyScalar (hole_direction (fst hi)) (r - 0.01),
      hv_lookAt = multiplyScalar (hole_direction (fst hi)) (r + 1)\<rparr>"

definition createHoleVisuals :: "discoBall \<Rightarrow> discoBall" where
  "createHoleVisuals s =
     (case mesh s of
        None \<Rightarrow> s
      | Some m \<Rightarrow>
          if length (holes s) = 0 then s
          else s\<lparr>mesh :=
                   Some (m\<lparr>mesh_children :=
                       mesh_children m
                       @ map (makeHoleVisual (radius (config s)))
                           (zip (holes s) [0 ..< length (holes s)])\<rparr>)\<rparr>)"

text \<open>\<open>init()\<close>\<close>

definition init :: "(real \<Rightarrow> real \<Rightarrow> real \<Rightarrow> geometry) \<Rightarrow> discoBall \<Rightarrow> discoBall" where
  "init SphereGeometry s =
     createHoleVisuals (createMesh (createMaterial (createHoleGeometry
       (generateHoles (createGeometry SphereGeometry s)))))"

text \<open>
  The constructor. \<open>a || b\<close> takes \<open>b\<close> when \<open>a\<close> is absent or zero; the spread
  \<open>...config\<close> that closes the object literal then writes every property the argument
  has over the value just computed.
\<close>

definition orDefault :: "real option \<Rightarrow> real \<Rightarrow> real" where
  "orDefault a b = (case a of None \<Rightarrow> b | Some v \<Rightarrow> if v = 0 then b else v)"

definition mergeConfig :: "discoBallOptions \<Rightarrow> discoBallConfig" where
  "mergeConfig c =
     \<lparr>radius = spread (orDefault (opt_radius c) 2) (opt_radius c),
      segments = spread (orDefault (opt_segments c) 32) (opt_segments c),
      cfg_holes = spread (orDefault (opt_holes c) 12) (opt_holes c),
      metalness = spread (orDefault (opt_metalness c) 0.9) (opt_metalness c),
      roughness = spread (orDefault (opt_roughness c) 0.1) (opt_roughness c),
      color = spread (orDefault (opt_color c) 0) (opt_color c),
      envMapIntensity = spread (orDefault (opt_envMapIntensity c) 1.0) (opt_envMapIntensity c)\<rparr>"

definition defaultRotationConfig :: rotationConfig where
  "defaultRotationConfig =
     \<lparr>speedTransitionRate = 0.05, minSpeed = 0.1, maxSpeed = 5.0,
      xAxisFactor = 0.1, zAxisFactor = 0.05\<rparr>"

definition new_DiscoBall :: "(real \<Rightarrow> real \<Rightarrow> real \<Rightarrow> geometry) \<Rightarrow> discoBallOptions \<Rightarrow> discoBall" where
  "new_DiscoBall SphereGeometry c =
     init SphereGeometry
       \<lparr>config = mergeConfig c,
        geometry = None,
        material = False,
        mesh = None,
        holes = [],
        rotationSpeed = 1.0,
        targetRotationSpeed = 1.0,
        rotationDirection = 1,
        currentRotation = \<lparr>rot_x = 0, rot_y = 0, rot_z = 0\<rparr>,
        rotationConfig = defaultRotationConfig\<rparr>"

text \<open>The constructor's argument with no property set (\<open>new DiscoBall()\<close>).\<close>

definition noOptions :: discoBallOptions where
  "noOptions =
     \<lparr>opt_radius = None, opt_segments = None, opt_holes = None, opt_metalness = None,
      opt_roughness = None, opt_color = None, opt_envMapIntensity = None\<rparr>"

subsection \<open>Sequences of controller operations\<close>

datatype rotationOp =
    SetSpeed real
  | SetSpeedImmediate real
  | SetDirection real
  | Stop
  | StopImmediate
  | Update real
  | SetRotationConfig rotationConfigPatch

fun applyOp :: "discoBall \<Rightarrow> rotationOp \<Rightarrow> discoBall" where
  "applyOp s (SetSpeed v) = setRotationSpeed s v"
| "applyOp s (SetSpeedImmediate v) = setRotationSpeedImmediate s v"
| "applyOp s (SetDirection d) = setRotationDirection s d"
| "applyOp s Stop = stopRotation s"
| "applyOp s StopImmediate = stopRotationImmediate s"
| "applyOp s (Update deltaTime) = updateRotation s deltaTime"
| "applyOp s (SetRotationConfig p) = setRotationConfig s p"

definition runOps :: "discoBall \<Rightarrow> rotationOp list \<Rightarrow> discoBall" where
  "runOps s ops = foldl applyOp s ops"

subsection \<open>Predicates and sample inputs for the rotation controller\<close>

text \<open>A sphere constructor that yields no vertices, for runs in which the vertex data
  play no part.\<close>

definition flatGeometry :: "real \<Rightarrow> real \<Rightarrow> real \<Rightarrow> geometry" where
  "flatGeometry r w h = \<lparr>vertices = []\<rparr>"

text \<open>The bound on the current speed, and the condition under which the controller
  keeps it: a non-negative smoothing rate, ordered bounds, and both speeds within them.\<close>

definition speedInvariant :: "discoBall \<Rightarrow> bool" where
  "speedInvariant s \<longleftrightarrow>
     minSpeed (rotationConfig s) \<le> rotationSpeed s
   \<and> rotationSpeed s \<le> maxSpeed (rotationConfig s)"

definition controllerInvariant :: "discoBall \<Rightarrow> bool" where
  "controllerInvariant s \<longleftrightarrow>
     0 \<le> speedTransitionRate (rotationConfig s)
   \<and> minSpeed (rotationConfig s) \<le> maxSpeed (rotationConfig s)
   \<and> speedInvariant s
   \<and> minSpeed (rotationConfig s) \<le> targetRotationSpeed s
   \<and> targetRotationSpeed s \<le> maxSpeed (rotationConfig s)"

text \<open>Operations that cannot break the bounds: an update with non-negative elapsed
  time, and a configuration change that leaves both bounds alone and keeps the
  smoothing rate non-negative. Every other operation qualifies.\<close>

fun keepsBounds :: "rotationOp \<Rightarrow> bool" where
  "keepsBounds (Update deltaTime) = (0 \<le> deltaTime)"
| "keepsBounds (SetRotationConfig p) =
     (p_minSpeed p = None \<and> p_maxSpeed p = None
      \<and> (case p_speedTransitionRate p of None \<Rightarrow> True | Some r \<Rightarrow> 0 \<le> r))"
| "keepsBounds _ = True"

text \<open>\<open>setRotationConfig({ minSpeed: 2 })\<close>\<close>

definition raiseMinSpeed :: rotationConfigPatch where
  "raiseMinSpeed =
     \<lparr>p_speedTransitionRate = None, p_minSpeed = Some 2, p_maxSpeed = None,
      p_xAxisFactor = None, p_zAxisFactor = None\<rparr>"

text \<open>The yaw increment of one update, from the state the update leaves.\<close>

definition rotationDeltaOf :: "discoBall \<Rightarrow> real \<Rightarrow> real" where
  "rotationDeltaOf s' deltaTime = rotationSpeed s' * rotationDirection s' * deltaTime * 0.001"

text \<open>A freshly built sphere after two frames of 250 ms.\<close>

definition twoFrames :: discoBall where
  "twoFrames = updateRotation (updateRotation (new_DiscoBall flatGeometry noOptions) 250) 250"

subsection \<open>Sample inputs for construction\<close>

text \<open>\<open>new DiscoBall({ holes: 0 })\<close>\<close>

definition noHoles :: discoBallOptions where
  "noHoles = noOptions\<lparr>opt_holes := Some 0\<rparr>"

section \<open>The beam system (LightBeamSystem)\<close>

subsection \<open>Colours and quaternions\<close>

record rgb =
  cr :: real
  cg :: real
  cb :: real

text \<open>
  Modelled from the spec: the colour class \<open>THREE.Color\<close> belongs to the rendering
  library and is not among the sources. \<open>new THREE.Color(hex)\<close> is the colour whose
  channels are the three bytes of the number, each divided by 255, so that \<open>0xffffff\<close>
  is the constant white \<open>(1, 1, 1)\<close>; a colour-space conversion by the library, which
  leaves channels 0 and 1 as they are, is not modelled. \<open>c.lerp(d, alpha)\<close> moves each
  channel by \<open>alpha\<close> of its distance to the target (the blend by a fixed factor).
\<close>

definition Color_hex :: "nat \<Rightarrow> rgb" where
  "Color_hex h =
     \<lparr>cr = real (h div 65536 mod 256) / 255,
      cg = real (h div 256 mod 256) / 255,
      cb = real (h mod 256) / 255\<rparr>"

definition clerp :: "rgb \<Rightarrow> rgb \<Rightarrow> real \<Rightarrow> rgb" where
  "clerp c d alpha =
     \<lparr>cr = cr c + (cr d - cr c) * alpha,
      cg = cg c + (cg d - cg c) * alpha,
      cb = cb c + (cb d - cb c) * alpha\<rparr>"

record quat =
  qx :: real
  qy :: real
  qz :: real
  qw :: real

text \<open>
  The quaternion operations of the rendering library are not among the sources. The
  beam system takes them as a parameter: rotating a vector by a quaternion, the
  quaternion turning one unit vector onto another, and the quaternion of a triple of
  Euler angles (the library keeps a mesh's quaternion equal to that of its Euler
  angles). The colour constructor from hue, saturation and lightness is a parameter of
  its own, and so is the sequence of numbers \<open>Math.random()\<close> returns, read through a
  cursor that each call advances.
\<close>

record three =
  applyQuaternion :: "vec3 \<Rightarrow> quat \<Rightarrow> vec3"
  setFromUnitVectors :: "vec3 \<Rightarrow> vec3 \<Rightarrow> quat"
  setFromEuler :: "euler \<Rightarrow> quat"

subsection \<open>Data\<close>

record beamMesh =
  bm_position :: vec3
  bm_quaternion :: quat

record uniforms =
  u_color :: rgb
  u_opacity :: real
  u_intensity :: real
  u_time :: real

record beam =
  beam_id :: nat
  beam_mesh :: beamMesh
  beam_material :: uniforms
  beam_hole :: hole
  baseColor :: rgb
  currentColor :: rgb
  colorOffset :: real
  randomColorTarget :: rgb

record beamConfig =
  beamLength :: real
  beamRadius :: real
  beamTipRadius :: real
  beamSegments :: real
  beamOpacity :: real
  beamIntensity :: real
  colorMode :: string
  animationSpeed :: real
  enableLensFlare :: bool
  flareSize :: real
  flareIntensity :: real
  flareOpacity :: real
  pulseSpeed :: real

record lightBeamSystem =
  lbs_config :: beamConfig
  beams :: "beam list"
  colorTime :: real
  rainbowColors :: "rgb list"

subsection \<open>Colour animation\<close>

text \<open>\<open>x % 1.0\<close>: the remainder has the sign of \<open>x\<close>.\<close>

definition jsmod1 :: "real \<Rightarrow> real" where
  "jsmod1 x = x - of_int (if 0 \<le> x then \<lfloor>x\<rfloor> else \<lceil>x\<rceil>)"

text \<open>\<open>getRainbowColor(t)\<close>. Both indices lie within the palette whenever it is not
  empty (lemma \<open>getRainbowColor_indices\<close>).\<close>

definition getRainbowColor :: "rgb list \<Rightarrow> real \<Rightarrow> rgb" where
  "getRainbowColor palette t =
     (let normalizedT = jsmod1 (jsmod1 t + 1.0);
          colorIndex = normalizedT * (real (length palette) - 1);
          lowerIndex = \<lfloor>colorIndex\<rfloor>;
          upperIndex = \<lceil>colorIndex\<rceil>;
          factor = colorIndex - of_int lowerIndex;
          lowerColor = palette ! nat lowerIndex;
          upperColor = palette ! (nat upperIndex mod length palette)
      in clerp lowerColor upperColor factor)"

text \<open>
  The body of the \<open>forEach\<close> in \<open>updateColors()\<close> for one beam. \<open>k\<close> is the cursor
  into the random numbers; the result carries the new cursor. In random mode the target
  is the stored random colour as it was before a re-roll.
\<close>

definition updateBeamColor ::
  "(real \<Rightarrow> real \<Rightarrow> real \<Rightarrow> rgb) \<Rightarrow> (nat \<Rightarrow> real) \<Rightarrow> lightBeamSystem \<Rightarrow> beam \<Rightarrow> nat \<Rightarrow> beam \<times> nat" where
  "updateBeamColor setHSL rnd s b k =
     (let (targetColor, b1, k1) =
            (if colorMode (lbs_config s) = ''rainbow'' then
               (getRainbowColor (rainbowColors s) (colorOffset b + colorTime s), b, k)
             else if colorMode (lbs_config s) = ''random'' then
               (if rnd k < 0.01
                then (randomColorTarget b,
                      b\<lparr>randomColorTarget := setHSL (rnd (k + 1)) 1.0 0.5\<rparr>, k + 2)
                else (randomColorTarget b, b, k + 1))
             else (Color_hex 0xffffff, b, k));
          c = clerp (currentColor b1) targetColor 0.05
      in (b1\<lparr>currentColor := c, beam_material := (beam_material b1)\<lparr>u_color := c\<rparr>\<rparr>, k1))"

fun updateColors_loop ::
  "(real \<Rightarrow> real \<Rightarrow> real \<Rightarrow> rgb) \<Rightarrow> (nat \<Rightarrow> real) \<Rightarrow> lightBeamSystem \<Rightarrow> beam list \<Rightarrow> nat \<Rightarrow> beam list \<times> nat" where
  "updateColors_loop setHSL rnd s [] k = ([], k)"
| "updateColors_loop setHSL rnd s (b # bs) k =
     (let (b', k') = updateBeamColor setHSL rnd s b k;
          (bs', k'') = updateColors_loop setHSL rnd s bs k'
      in (b' # bs', k''))"

definition updateColors ::
  "(real \<Rightarrow> real \<Rightarrow> real \<Rightarrow> rgb) \<Rightarrow> (nat \<Rightarrow> real) \<Rightarrow> lightBeamSystem \<Rightarrow> nat \<Rightarrow> lightBeamSystem \<times> nat" where
  "updateColors setHSL rnd s k =
     (let (bs, k') = updateColors_loop setHSL rnd s (beams s) k
      in (s\<lparr>beams := bs\<rparr>, k'))"

subsection \<open>Synchronisation with the sphere\<close>

text \<open>
  \<open>syncWithDiscoBall()\<close>. The beam system holds a reference to the sphere object; the
  argument \<open>db\<close> is that object as it is when the method runs (\<open>None\<close> for a missing
  reference). Beams whose index has no aperture are left as they are.
\<close>

definition syncBeam :: "three \<Rightarrow> object3d \<Rightarrow> hole list \<Rightarrow> beam \<times> nat \<Rightarrow> beam" where
  "syncBeam L discoBallMesh hs bi =
     (let b = fst bi; index = snd bi
      in if index \<ge> length hs then b
         else
           (let hole = hs ! index;
                q = setFromEuler L (mesh_rotation discoBallMesh);
                rotatedPosition =
                  add (applyQuaternion L (hole_position hole) q) (mesh_position discoBallMesh);
                rotatedDirection = applyQuaternion L (hole_direction hole) q
            in b\<lparr>beam_mesh :=
                   \<lparr>bm_position = rotatedPosition,
                    bm_quaternion =
                      setFromUnitVectors L (Vector3 0 1 0) rotatedDirection\<rparr>\<rparr>))"

definition syncWithDiscoBall :: "three \<Rightarrow> discoBall option \<Rightarrow> lightBeamSystem \<Rightarrow> lightBeamSystem" where
  "syncWithDiscoBall L db s =
     (case db of
        None \<Rightarrow> s
      | Some ball \<Rightarrow>
          (case mesh ball of
             None \<Rightarrow> s
           | Some discoBallMesh \<Rightarrow>
               s\<lparr>beams :=
                   map (syncBeam L discoBallMesh (holes ball))
                     (zip (beams s) [0 ..< length (beams s)])\<rparr>))"

text \<open>\<open>update(deltaTime)\<close>\<close>

definition update ::
  "three \<Rightarrow> (real \<Rightarrow> real \<Rightarrow> real \<Rightarrow> rgb) \<Rightarrow> (nat \<Rightarrow> real) \<Rightarrow> discoBall option \<Rightarrow> lightBeamSystem \<Rightarrow> real \<Rightarrow> nat
     \<Rightarrow> lightBeamSystem \<times> nat" where
  "update L setHSL rnd db s deltaTime k =
     (let t = colorTime s + animationSpeed (lbs_config s) * (deltaTime * 0.001);
          s1 = s\<lparr>colorTime := t,
                 beams := map (\<lambda>b. b\<lparr>beam_material := (beam_material b)\<lparr>u_time := t\<rparr>\<rparr>) (beams s)\<rparr>;
          (s2, k') = updateColors setHSL rnd s1 k
      in (syncWithDiscoBall L db s2, k'))"

subsection \<open>Setters\<close>

text \<open>\<open>setColorMode(mode)\<close>, \<open>setIntensity\<close>, \<open>setOpacity\<close>, \<open>setAnimationSpeed\<close>. The
  console message of \<open>setColorMode\<close> is not part of the state.\<close>

definition setColorMode :: "lightBeamSystem \<Rightarrow> string \<Rightarrow> lightBeamSystem" where
  "setColorMode s mode =
     (if mode \<in> set [''rainbow'', ''random'', ''white'']
      then s\<lparr>lbs_config := (lbs_config s)\<lparr>colorMode := mode\<rparr>\<rparr>
      else s)"

definition setIntensity :: "lightBeamSystem \<Rightarrow> real \<Rightarrow> lightBeamSystem" where
  "setIntensity s intensity =
     (let v = max 0 intensity
      in s\<lparr>lbs_config := (lbs_config s)\<lparr>beamIntensity := v\<rparr>,
           beams := map (\<lambda>b. b\<lparr>beam_material := (beam_material b)\<lparr>u_intensity := v\<rparr>\<rparr>) (beams s)\<rparr>)"

definition setOpacity :: "lightBeamSystem \<Rightarrow> real \<Rightarrow> lightBeamSystem" where
  "setOpacity s opacity =
     (let v = max 0 (min 1 opacity)
      in s\<lparr>lbs_config := (lbs_config s)\<lparr>beamOpacity := v\<rparr>,
           beams := map (\<lambda>b. b\<lparr>beam_material := (beam_material b)\<lparr>u_opacity := v\<rparr>\<rparr>) (beams s)\<rparr>)"

definition setAnimationSpeed :: "lightBeamSystem \<Rightarrow> real \<Rightarrow> lightBeamSystem" where
  "setAnimationSpeed s speed = s\<lparr>lbs_config := (lbs_config s)\<lparr>animationSpeed := max 0 speed\<rparr>\<rparr>"

subsection \<open>Creation of the beams\<close>

text \<open>
  \<open>createBeams()\<close>: one beam per aperture, at the aperture's position, turned from the
  up axis onto its direction (the earlier \<open>lookAt\<close> is overwritten by
  \<open>setRotationFromQuaternion\<close>), with a material cloned from the shared one and one
  random number drawn for its random colour; then the colours are initialised by
  \<open>updateColors()\<close>.
\<close>

definition makeBeam ::
  "three \<Rightarrow> (real \<Rightarrow> real \<Rightarrow> real \<Rightarrow> rgb) \<Rightarrow> (nat \<Rightarrow> real) \<Rightarrow> beamConfig \<Rightarrow> nat \<Rightarrow> nat \<Rightarrow> hole \<times> nat \<Rightarrow> beam" where
  "makeBeam L setHSL rnd cfg k n hi =
     (let hole = fst hi; index = snd hi
      in \<lparr>beam_id = index,
          beam_mesh = \<lparr>bm_position = hole_position hole,
                       bm_quaternion =
                         setFromUnitVectors L (Vector3 0 1 0) (hole_direction hole)\<rparr>,
          beam_material = \<lparr>u_color = Color_hex 0xffffff, u_opacity = beamOpacity cfg,
                           u_intensity = beamIntensity cfg, u_time = 0.0\<rparr>,
          beam_hole = hole,
          baseColor = Color_hex 0xffffff,
          currentColor = Color_hex 0xffffff,
          colorOffset = real index / real n,
          randomColorTarget = setHSL (rnd (k + index)) 1.0 0.5\<rparr>)"

definition createBeams ::
  "three \<Rightarrow> (real \<Rightarrow> real \<Rightarrow> real \<Rightarrow> rgb) \<Rightarrow> (nat \<Rightarrow> real) \<Rightarrow> discoBall \<Rightarrow> lightBeamSystem \<Rightarrow> nat
     \<Rightarrow> lightBeamSystem \<times> nat" where
  "createBeams L setHSL rnd ball s k =
     (let hs = holes ball;
          s1 = s\<lparr>beams :=
                   beams s
                   @ map (makeBeam L setHSL rnd (lbs_config s) k (length hs))
                       (zip hs [0 ..< length hs])\<rparr>
      in updateColors setHSL rnd s1 (k + length hs))"

text \<open>The constructor, from the configuration as merged with the defaults (the merging
  itself is not modelled).\<close>

definition new_LightBeamSystem ::
  "three \<Rightarrow> (real \<Rightarrow> real \<Rightarrow> real \<Rightarrow> rgb) \<Rightarrow> (nat \<Rightarrow> real) \<Rightarrow> discoBall \<Rightarrow> beamConfig \<Rightarrow> nat
     \<Rightarrow> lightBeamSystem \<times> nat" where
  "new_LightBeamSystem L setHSL rnd ball cfg k =
     createBeams L setHSL rnd ball
       \<lparr>lbs_config = cfg, beams = [], colorTime = 0,
        rainbowColors =
          [Color_hex 0xff0000, Color_hex 0xff8000, Color_hex 0xffff00, Color_hex 0x00ff00,
           Color_hex 0x00ffff, Color_hex 0x0080ff, Color_hex 0x8000ff]\<rparr> k"

subsection \<open>A concrete instance of the library operations, and sample systems\<close>

text \<open>
  One instance of the parameters, at which the statements below can be evaluated: the
  rotation of a vector by a quaternion, the normalised quaternion built from the cross
  product and the dot product of two unit vectors, the quaternion of Euler angles in
  the order XYZ, and the conversion from hue, saturation and lightness. The statements
  themselves hold for every instance.
\<close>

definition quatNormalize :: "quat \<Rightarrow> quat" where
  "quatNormalize q =
     (let l = sqrt (qx q * qx q + qy q * qy q + qz q * qz q + qw q * qw q)
      in if l = 0 then \<lparr>qx = 0, qy = 0, qz = 0, qw = 1\<rparr>
         else \<lparr>qx = qx q / l, qy = qy q / l, qz = qz q / l, qw = qw q / l\<rparr>)"

definition threeModel :: three where
  "threeModel =
     \<lparr>applyQuaternion = (\<lambda>v q.
        (let tx = 2 * (qy q * vz v - qz q * vy v);
             ty = 2 * (qz q * vx v - qx q * vz v);
             tz = 2 * (qx q * vy v - qy q * vx v)
         in \<lparr>vx = vx v + qw q * tx + qy q * tz - qz q * ty,
             vy = vy v + qw q * ty + qz q * tx - qx q * tz,
             vz = vz v + qw q * tz + qx q * ty - qy q * tx\<rparr>)),
      setFromUnitVectors = (\<lambda>vFrom vTo.
        (let r = vx vFrom * vx vTo + vy vFrom * vy vTo + vz vFrom * vz vTo + 1
         in if r < 1 / 2 ^ 52 then
              (if \<bar>vx vFrom\<bar> > \<bar>vz vFrom\<bar>
               then quatNormalize \<lparr>qx = - vy vFrom, qy = vx vFrom, qz = 0, qw = 0\<rparr>
               else quatNormalize \<lparr>qx = 0, qy = - vz vFrom, qz = vy vFrom, qw = 0\<rparr>)
            else quatNormalize
                   \<lparr>qx = vy vFrom * vz vTo - vz vFrom * vy vTo,
                    qy = vz vFrom * vx vTo - vx vFrom * vz vTo,
                    qz = vx vFrom * vy vTo - vy vFrom * vx vTo,
                    qw = r\<rparr>)),
      setFromEuler = (\<lambda>e.
        (let c1 = cos (rot_x e / 2); c2 = cos (rot_y e / 2); c3 = cos (rot_z e / 2);
             s1 = sin (rot_x e / 2); s2 = sin (rot_y e / 2); s3 = sin (rot_z e / 2)
         in \<lparr>qx = s1 * c2 * c3 + c1 * s2 * s3,
             qy = c1 * s2 * c3 - s1 * c2 * s3,
             qz = c1 * c2 * s3 + s1 * s2 * c3,
             qw = c1 * c2 * c3 - s1 * s2 * s3\<rparr>))\<rparr>"

definition hue2rgb :: "real \<Rightarrow> real \<Rightarrow> real \<Rightarrow> real" where
  "hue2rgb p q t0 =
     (let t1 = (if t0 < 0 then t0 + 1 else t0);
          t = (if t1 > 1 then t1 - 1 else t1)
      in if t < 1 / 6 then p + (q - p) * 6 * t
         else if t < 1 / 2 then q
         else if t < 2 / 3 then p + (q - p) * 6 * (2 / 3 - t)
         else p)"

definition hslColor :: "real \<Rightarrow> real \<Rightarrow> real \<Rightarrow> rgb" where
  "hslColor h0 s0 l0 =
     (let h = jsmod1 (jsmod1 h0 + 1);
          s = max 0 (min 1 s0);
          l = max 0 (min 1 l0)
      in if s = 0 then \<lparr>cr = l, cg = l, cb = l\<rparr>
         else
           (let p = (if l \<le> 0.5 then l * (1 + s) else l + s - l * s);
                q = 2 * l - p
            in \<lparr>cr = hue2rgb q p (h + 1 / 3), cg = hue2rgb q p h,
                cb = hue2rgb q p (h - 1 / 3)\<rparr>))"

text \<open>A source of random numbers that always returns one half.\<close>

definition steadyRandom :: "nat \<Rightarrow> real" where
  "steadyRandom k = 1 / 2"

text \<open>\<open>new DiscoBall({ holes: 1 })\<close>, the configuration the beam system's constructor
  arrives at when given no options, and the beam system built on that sphere.\<close>

definition oneHole :: discoBallOptions where
  "oneHole = noOptions\<lparr>opt_holes := Some 1\<rparr>"

definition defaultBeamConfig :: beamConfig where
  "defaultBeamConfig =
     \<lparr>beamLength = 8, beamRadius = 0.5, beamTipRadius = 0.05, beamSegments = 8,
      beamOpacity = 0.8, beamIntensity = 2.0, colorMode = ''rainbow'',
      animationSpeed = 0.02, enableLensFlare = True, flareSize = 1.0,
      flareIntensity = 1.5, flareOpacity = 0.8, pulseSpeed = 2.0\<rparr>"

definition sampleBall :: discoBall where
  "sampleBall = new_DiscoBall flatGeometry oneHole"

definition sampleSystem :: lightBeamSystem where
  "sampleSystem =
     fst (new_LightBeamSystem threeModel hslColor steadyRandom sampleBall defaultBeamConfig 0)"

text \<open>The sample system switched to white mode, and the sample sphere after one frame
  of 250 ms.\<close>

definition whiteSystem :: lightBeamSystem where
  "whiteSystem = setColorMode sampleSystem ''white''"

definition turnedBall :: discoBall where
  "turnedBall = updateRotation sampleBall 250"

section \<open>Properties of the rotation controller\<close>

subsection \<open>Interpolation and the frame of an update\<close>

lemma lerp_between_up:
  "0 \<le> t \<Longrightarrow> t \<le> 1 \<Longrightarrow> a \<le> b \<Longrightarrow> a \<le> lerp a b t \<and> lerp a b t \<le> b"
proof -
  assume t0: "0 \<le> t" and t1: "t \<le> 1" and ab: "a \<le> b"
  have eq: "lerp a b t = a + t * (b - a)" by (simp add: lerp_def algebra_simps)
  have p: "0 \<le> t * (b - a)" using t0 ab by simp
  have q: "t * (b - a) \<le> 1 * (b - a)" using t1 ab by (intro mult_right_mono) simp_all
  show ?thesis using eq p q by simp
qed

lemma lerp_between_down:
  "0 \<le> t \<Longrightarrow> t \<le> 1 \<Longrightarrow> b \<le> a \<Longrightarrow> b \<le> lerp a b t \<and> lerp a b t \<le> a"
proof -
  assume t0: "0 \<le> t" and t1: "t \<le> 1" and ab: "b \<le> a"
  have eq: "lerp a b t = a - t * (a - b)" by (simp add: lerp_def algebra_simps)
  have p: "0 \<le> t * (a - b)" using t0 ab by simp
  have q: "t * (a - b) \<le> 1 * (a - b)" using t1 ab by (intro mult_right_mono) simp_all
  show ?thesis using eq p q by simp
qed

lemma updateRotationSpeed_frame:
  "targetRotationSpeed (updateRotationSpeed s dt) = targetRotationSpeed s"
  "rotationConfig (updateRotationSpeed s dt) = rotationConfig s"
  "rotationDirection (updateRotationSpeed s dt) = rotationDirection s"
  "currentRotation (updateRotationSpeed s dt) = currentRotation s"
  "mesh (updateRotationSpeed s dt) = mesh s"
  by (simp_all add: updateRotationSpeed_def Let_def)

lemma updateRotation_speed:
  "rotationSpeed (updateRotation s dt) =
     (case mesh s of None \<Rightarrow> rotationSpeed s | Some m \<Rightarrow> rotationSpeed (updateRotationSpeed s dt))"
  by (simp add: updateRotation_def Let_def split: option.splits)

lemma updateRotation_frame:
  "targetRotationSpeed (updateRotation s dt) = targetRotationSpeed s"
  "rotationConfig (updateRotation s dt) = rotationConfig s"
  "rotationDirection (updateRotation s dt) = rotationDirection s"
  by (simp_all add: updateRotation_def Let_def updateRotationSpeed_frame split: option.splits)

lemma updateRotationSpeed_up:
  assumes "0 \<le> speedTransitionRate (rotationConfig s)" "0 \<le> dt"
    and "rotationSpeed s \<le> targetRotationSpeed s"
  shows "rotationSpeed s \<le> rotationSpeed (updateRotationSpeed s dt)
       \<and> rotationSpeed (updateRotationSpeed s dt) \<le> targetRotationSpeed s"
proof (cases "\<bar>rotationSpeed s - targetRotationSpeed s\<bar> > 0.01")
  case True
  let ?t = "min (speedTransitionRate (rotationConfig s) * (dt * 0.001)) 1.0"
  have t0: "0 \<le> ?t" using assms(1,2) by simp
  have t1: "?t \<le> 1" by simp
  from lerp_between_up[OF t0 t1 assms(3)] True show ?thesis
    by (simp add: updateRotationSpeed_def Let_def)
next
  case False
  then show ?thesis using assms(3) by (simp add: updateRotationSpeed_def)
qed

lemma updateRotationSpeed_down:
  assumes "0 \<le> speedTransitionRate (rotationConfig s)" "0 \<le> dt"
    and "targetRotationSpeed s \<le> rotationSpeed s"
  shows "targetRotationSpeed s \<le> rotationSpeed (updateRotationSpeed s dt)
       \<and> rotationSpeed (updateRotationSpeed s dt) \<le> rotationSpeed s"
proof (cases "\<bar>rotationSpeed s - targetRotationSpeed s\<bar> > 0.01")
  case True
  let ?t = "min (speedTransitionRate (rotationConfig s) * (dt * 0.001)) 1.0"
  have t0: "0 \<le> ?t" using assms(1,2) by simp
  have t1: "?t \<le> 1" by simp
  from lerp_between_down[OF t0 t1 assms(3)] True show ?thesis
    by (simp add: updateRotationSpeed_def Let_def)
next
  case False
  then show ?thesis using assms(3) by (simp add: updateRotationSpeed_def)
qed

lemma init_rotation:
  "rotationSpeed (new_DiscoBall G c) = 1"
  "targetRotationSpeed (new_DiscoBall G c) = 1"
  "rotationDirection (new_DiscoBall G c) = 1"
  "rotationConfig (new_DiscoBall G c) = defaultRotationConfig"
  "currentRotation (new_DiscoBall G c) = \<lparr>rot_x = 0, rot_y = 0, rot_z = 0\<rparr>"
  by (simp_all add: new_DiscoBall_def init_def createHoleVisuals_def createMesh_def
      createMaterial_def createHoleGeometry_def generateHoles_def createGeometry_def
      split: option.splits)

lemma init_mesh:
  "\<exists>m. mesh (new_DiscoBall G c) = Some m \<and> mesh_rotation m = \<lparr>rot_x = 0, rot_y = 0, rot_z = 0\<rparr>
      \<and> mesh_position m = Vector3 0 0 0"
  by (simp add: new_DiscoBall_def init_def createHoleVisuals_def createMesh_def
      createMaterial_def createHoleGeometry_def generateHoles_def createGeometry_def
      split: option.splits)

lemma runUpdates_frame:
  "targetRotationSpeed (runOps s (map Update dts)) = targetRotationSpeed s
   \<and> rotationConfig (runOps s (map Update dts)) = rotationConfig s"
  unfolding runOps_def
  by (induction dts arbitrary: s) (simp_all add: updateRotation_frame)

lemma runOps_snoc: "runOps s (ops @ [x]) = applyOp (runOps s ops) x"
  by (simp add: runOps_def)

lemma lerp_strict_up: "0 < t \<Longrightarrow> a < b \<Longrightarrow> a < lerp a b t"
proof -
  assume t: "0 < t" and ab: "a < b"
  have "lerp a b t = a + t * (b - a)" by (simp add: lerp_def algebra_simps)
  moreover have "0 < t * (b - a)" using t ab by simp
  ultimately show ?thesis by simp
qed

lemma lerp_strict_down: "0 < t \<Longrightarrow> b < a \<Longrightarrow> lerp a b t < a"
proof -
  assume t: "0 < t" and ab: "b < a"
  have "lerp a b t = a - t * (a - b)" by (simp add: lerp_def algebra_simps)
  moreover have "0 < t * (a - b)" using t ab by simp
  ultimately show ?thesis by simp
qed

lemma updateRotationSpeed_strict_up:
  assumes "0 < speedTransitionRate (rotationConfig s)" "0 < dt"
    and "rotationSpeed s < targetRotationSpeed s"
  shows "rotationSpeed s < rotationSpeed (updateRotationSpeed s dt)"
proof (cases "\<bar>rotationSpeed s - targetRotationSpeed s\<bar> > 0.01")
  case True
  let ?t = "min (speedTransitionRate (rotationConfig s) * (dt * 0.001)) 1.0"
  have "0 < speedTransitionRate (rotationConfig s) * (dt * 0.001)"
    using assms(1,2) by simp
  then have t0: "0 < ?t" by simp
  from lerp_strict_up[OF t0 assms(3)] True show ?thesis
    by (simp add: updateRotationSpeed_def Let_def)
next
  case False
  then show ?thesis using assms(3) by (simp add: updateRotationSpeed_def)
qed

lemma updateRotationSpeed_strict_down:
  assumes "0 < speedTransitionRate (rotationConfig s)" "0 < dt"
    and "targetRotationSpeed s < rotationSpeed s"
  shows "rotationSpeed (updateRotationSpeed s dt) < rotationSpeed s"
proof (cases "\<bar>rotationSpeed s - targetRotationSpeed s\<bar> > 0.01")
  case True
  let ?t = "min (speedTransitionRate (rotationConfig s) * (dt * 0.001)) 1.0"
  have "0 < speedTransitionRate (rotationConfig s) * (dt * 0.001)"
    using assms(1,2) by simp
  then have t0: "0 < ?t" by simp
  from lerp_strict_down[OF t0 assms(3)] True show ?thesis
    by (simp add: updateRotationSpeed_def Let_def)
next
  case False
  then show ?thesis using assms(3) by (simp add: updateRotationSpeed_def)
qed

lemma updateRotation_mesh_kept: "mesh (updateRotation s dt) = None \<longleftrightarrow> mesh s = None"
  by (simp add: updateRotation_def Let_def split: option.splits)

lemma runUpdates_mesh_kept: "mesh (runOps s (map Update dts)) = None \<longleftrightarrow> mesh s = None"
  unfolding runOps_def
  by (induction dts arbitrary: s) (simp_all add: updateRotation_mesh_kept)

subsection \<open>Clamping of the target speed\<close>

text \<open>
  C8. \<open>setRotationSpeed(v)\<close> stores the clamp of \<open>v\<close> to \<open>[minSpeed, maxSpeed]\<close> as
  the target speed: \<open>minSpeed\<close> for an input below it, \<open>maxSpeed\<close> for an input above
  it, the input itself otherwise. The current speed is not touched and no other field
  changes; the function has no failing branch. The bounds are taken to be ordered.
\<close>

theorem setRotationSpeed_clamps:
  assumes "minSpeed (rotationConfig s) \<le> maxSpeed (rotationConfig s)"
  shows "targetRotationSpeed (setRotationSpeed s v) =
           (if v < minSpeed (rotationConfig s) then minSpeed (rotationConfig s)
            else if v > maxSpeed (rotationConfig s) then maxSpeed (rotationConfig s)
            else v)
       \<and> rotationSpeed (setRotationSpeed s v) = rotationSpeed s
       \<and> setRotationSpeed s v = s\<lparr>targetRotationSpeed := targetRotationSpeed (setRotationSpeed s v)\<rparr>"
  using assms by (simp add: setRotationSpeed_def)

theorem setRotationSpeed_clamps_witness:
  "minSpeed (rotationConfig (new_DiscoBall flatGeometry noOptions))
     \<le> maxSpeed (rotationConfig (new_DiscoBall flatGeometry noOptions))
   \<and> targetRotationSpeed (setRotationSpeed (new_DiscoBall flatGeometry noOptions) 9) = 5
   \<and> targetRotationSpeed (setRotationSpeed (new_DiscoBall flatGeometry noOptions) (-3)) = 1 / 10
   \<and> targetRotationSpeed (setRotationSpeed (new_DiscoBall flatGeometry noOptions) 2) = 2
   \<and> rotationSpeed (setRotationSpeed (new_DiscoBall flatGeometry noOptions) 9) = 1"
  using setRotationSpeed_clamps[of "new_DiscoBall flatGeometry noOptions" 9]
    setRotationSpeed_clamps[of "new_DiscoBall flatGeometry noOptions" "-3"]
    setRotationSpeed_clamps[of "new_DiscoBall flatGeometry noOptions" 2]
  by (simp add: init_rotation defaultRotationConfig_def)

subsection \<open>Smoothing without overshoot\<close>

text \<open>
  C7. In any sequence of updates with positive elapsed times, each update moves the
  current speed towards the target and not past it: from below, the speed does not
  decrease and does not exceed the target; from above, symmetrically. The target is the
  same before and after every update. The smoothing rate is taken to be non-negative,
  as it is in the constructor's configuration. Where the rate is positive and the
  sphere has a mesh (without one an update does nothing), the move is strict: a speed
  below the target increases, a speed above it decreases, and a speed different from
  the target ends strictly closer to it.
\<close>

theorem update_monotone_sequence:
  assumes "0 \<le> speedTransitionRate (rotationConfig s)"
    and "\<forall>dt \<in> set dts. 0 < dt"
    and "n < length dts"
    and "before = runOps s (map Update (take n dts))"
    and "after = updateRotation before (dts ! n)"
  shows "after = runOps s (map Update (take (Suc n) dts))
       \<and> targetRotationSpeed before = targetRotationSpeed s
       \<and> targetRotationSpeed after = targetRotationSpeed s
       \<and> (rotationSpeed before \<le> targetRotationSpeed s \<longrightarrow>
            rotationSpeed before \<le> rotationSpeed after
          \<and> rotationSpeed after \<le> targetRotationSpeed s)
       \<and> (targetRotationSpeed s \<le> rotationSpeed before \<longrightarrow>
            targetRotationSpeed s \<le> rotationSpeed after
          \<and> rotationSpeed after \<le> rotationSpeed before)
       \<and> (0 < speedTransitionRate (rotationConfig s) \<and> mesh s \<noteq> None \<longrightarrow>
            (rotationSpeed before < targetRotationSpeed s \<longrightarrow>
               rotationSpeed before < rotationSpeed after)
          \<and> (targetRotationSpeed s < rotationSpeed before \<longrightarrow>
               rotationSpeed after < rotationSpeed before)
          \<and> (rotationSpeed before \<noteq> targetRotationSpeed s \<longrightarrow>
               \<bar>targetRotationSpeed s - rotationSpeed after\<bar>
                 < \<bar>targetRotationSpeed s - rotationSpeed before\<bar>))"
proof -
  have fr: "targetRotationSpeed before = targetRotationSpeed s"
      "rotationConfig before = rotationConfig s"
    using runUpdates_frame[of s "take n dts"] assms(4) by simp_all
  have dtp: "0 < dts ! n" using assms(2,3) by simp
  have dt: "0 \<le> dts ! n" using dtp by simp
  have r: "0 \<le> speedTransitionRate (rotationConfig before)" using assms(1) fr by simp
  have step: "after = runOps s (map Update (take (Suc n) dts))"
    using assms(3,4,5) by (simp add: take_Suc_conv_app_nth runOps_snoc)
  have up: "rotationSpeed before \<le> targetRotationSpeed s \<longrightarrow>
            rotationSpeed before \<le> rotationSpeed after
          \<and> rotationSpeed after \<le> targetRotationSpeed s"
    unfolding assms(5) using updateRotationSpeed_up[OF r dt] fr
    by (simp add: updateRotation_speed split: option.splits)
  have down: "targetRotationSpeed s \<le> rotationSpeed before \<longrightarrow>
            targetRotationSpeed s \<le> rotationSpeed after
          \<and> rotationSpeed after \<le> rotationSpeed before"
    unfolding assms(5) using updateRotationSpeed_down[OF r dt] fr
    by (simp add: updateRotation_speed split: option.splits)
  have ta: "targetRotationSpeed after = targetRotationSpeed s"
    unfolding assms(5) using fr by (simp add: updateRotation_frame)
  have strict: "(rotationSpeed before < targetRotationSpeed s \<longrightarrow>
               rotationSpeed before < rotationSpeed after)
          \<and> (targetRotationSpeed s < rotationSpeed before \<longrightarrow>
               rotationSpeed after < rotationSpeed before)
          \<and> (rotationSpeed before \<noteq> targetRotationSpeed s \<longrightarrow>
               \<bar>targetRotationSpeed s - rotationSpeed after\<bar>
                 < \<bar>targetRotationSpeed s - rotationSpeed before\<bar>)"
    if rp: "0 < speedTransitionRate (rotationConfig s)" and ms: "mesh s \<noteq> None"
  proof -
    have rb: "0 < speedTransitionRate (rotationConfig before)" using rp fr by simp
    obtain m where m: "mesh before = Some m"
      using ms runUpdates_mesh_kept[of s "take n dts"] assms(4) by auto
    have sa: "rotationSpeed after = rotationSpeed (updateRotationSpeed before (dts ! n))"
      unfolding assms(5) by (simp add: updateRotation_speed m)
    have su: "rotationSpeed before < targetRotationSpeed s \<longrightarrow>
               rotationSpeed before < rotationSpeed after"
      unfolding sa using updateRotationSpeed_strict_up[OF rb dtp] fr by simp
    have sd: "targetRotationSpeed s < rotationSpeed before \<longrightarrow>
               rotationSpeed after < rotationSpeed before"
      unfolding sa using updateRotationSpeed_strict_down[OF rb dtp] fr by simp
    have cl: "rotationSpeed before \<noteq> targetRotationSpeed s \<longrightarrow>
               \<bar>targetRotationSpeed s - rotationSpeed after\<bar>
                 < \<bar>targetRotationSpeed s - rotationSpeed before\<bar>"
      using su sd up down by linarith
    show ?thesis using su sd cl by blast
  qed
  show ?thesis using step fr(1) ta up down strict by blast
qed

theorem update_monotone_sequence_witness:
  "0 \<le> speedTransitionRate (rotationConfig (setRotationSpeed (new_DiscoBall flatGeometry noOptions) 3))
   \<and> 0 < speedTransitionRate (rotationConfig (setRotationSpeed (new_DiscoBall flatGeometry noOptions) 3))
   \<and> mesh (setRotationSpeed (new_DiscoBall flatGeometry noOptions) 3) \<noteq> None
   \<and> 1 < length [1000, 2000 :: real]
   \<and> rotationSpeed (runOps (setRotationSpeed (new_DiscoBall flatGeometry noOptions) 3)
         (map Update (take 1 [1000, 2000])))
       < rotationSpeed (updateRotation
            (runOps (setRotationSpeed (new_DiscoBall flatGeometry noOptions) 3)
               (map Update (take 1 [1000, 2000]))) ([1000, 2000] ! 1))
   \<and> rotationSpeed (updateRotation
            (runOps (setRotationSpeed (new_DiscoBall flatGeometry noOptions) 3)
               (map Update (take 1 [1000, 2000]))) ([1000, 2000] ! 1))
       \<le> targetRotationSpeed (setRotationSpeed (new_DiscoBall flatGeometry noOptions) 3)"
proof -
  let ?s = "setRotationSpeed (new_DiscoBall flatGeometry noOptions) 3"
  obtain m where m: "mesh (new_DiscoBall flatGeometry noOptions) = Some m"
    using init_mesh by blast
  have h1: "0 \<le> speedTransitionRate (rotationConfig ?s)"
    by (simp add: setRotationSpeed_def init_rotation defaultRotationConfig_def)
  have h2: "\<forall>dt \<in> set [1000, 2000 :: real]. 0 < dt" by simp
  have h3: "1 < length [1000, 2000 :: real]" by simp
  have h4: "0 < speedTransitionRate (rotationConfig ?s)"
    by (simp add: setRotationSpeed_def init_rotation defaultRotationConfig_def)
  have h5: "mesh ?s \<noteq> None" by (simp add: setRotationSpeed_def m)
  have below: "rotationSpeed (runOps ?s (map Update (take 1 [1000, 2000])))
                 < targetRotationSpeed ?s"
    by (simp add: runOps_def updateRotation_speed updateRotationSpeed_def setRotationSpeed_def
        init_rotation defaultRotationConfig_def m lerp_def)
  then have below': "rotationSpeed (runOps ?s (map Update (take 1 [1000, 2000])))
                 \<le> targetRotationSpeed ?s" by simp
  from update_monotone_sequence[OF h1 h2 h3 refl refl] below below' h1 h3 h4 h5
  show ?thesis by blast
qed

subsection \<open>The speed bounds\<close>

lemma applyOp_keeps_invariant:
  assumes "controllerInvariant s" "keepsBounds x"
  shows "controllerInvariant (applyOp s x)"
proof (cases x)
  case (SetSpeed v)
  then show ?thesis using assms(1)
    by (auto simp: controllerInvariant_def speedInvariant_def setRotationSpeed_def)
next
  case (SetSpeedImmediate v)
  then show ?thesis using assms(1)
    by (auto simp: controllerInvariant_def speedInvariant_def setRotationSpeedImmediate_def Let_def)
next
  case (SetDirection d)
  then show ?thesis using assms(1)
    by (auto simp: controllerInvariant_def speedInvariant_def setRotationDirection_def)
next
  case Stop
  then show ?thesis using assms(1)
    by (auto simp: controllerInvariant_def speedInvariant_def stopRotation_def setRotationSpeed_def)
next
  case StopImmediate
  then show ?thesis using assms(1)
    by (auto simp: controllerInvariant_def speedInvariant_def stopRotationImmediate_def
        setRotationSpeedImmediate_def Let_def)
next
  case (Update dt)
  then have dt: "0 \<le> dt" using assms(2) by simp
  have r: "0 \<le> speedTransitionRate (rotationConfig s)"
    using assms(1) by (simp add: controllerInvariant_def)
  show ?thesis
  proof (cases "rotationSpeed s \<le> targetRotationSpeed s")
    case True
    from updateRotationSpeed_up[OF r dt True] assms(1) Update show ?thesis
      by (auto simp: controllerInvariant_def speedInvariant_def updateRotation_speed
          updateRotation_frame split: option.splits)
  next
    case False
    then have ge: "targetRotationSpeed s \<le> rotationSpeed s" by simp
    from updateRotationSpeed_down[OF r dt ge] assms(1) Update show ?thesis
      by (auto simp: controllerInvariant_def speedInvariant_def updateRotation_speed
          updateRotation_frame split: option.splits)
  qed
next
  case (SetRotationConfig p)
  then show ?thesis using assms
    by (auto simp: controllerInvariant_def speedInvariant_def setRotationConfig_def spread_def
        split: option.splits)
qed

lemma runOps_keeps_invariant:
  "controllerInvariant s \<Longrightarrow> list_all keepsBounds ops \<Longrightarrow> controllerInvariant (runOps s ops)"
  unfolding runOps_def
  by (induction ops arbitrary: s) (simp_all add: applyOp_keeps_invariant)

lemma new_DiscoBall_invariant: "controllerInvariant (new_DiscoBall G c)"
  by (simp add: controllerInvariant_def speedInvariant_def init_rotation defaultRotationConfig_def)

lemma list_all_take: "list_all P xs \<Longrightarrow> list_all P (take n xs)"
  by (auto simp: list_all_iff dest: in_set_takeD)

text \<open>
  C6, as the claim states it, fails: \<open>setRotationConfig\<close> stores new bounds without
  re-clamping the speeds, so after a first update, raising \<open>minSpeed\<close> to 2 leaves the
  current speed 1 below the lower bound, and the next update keeps it there.
\<close>

theorem speed_bounds_counterexample:
  "\<not> speedInvariant (runOps (new_DiscoBall flatGeometry noOptions)
        [Update 16, SetRotationConfig raiseMinSpeed, Update 16])"
proof -
  obtain m where m: "mesh (new_DiscoBall flatGeometry noOptions) = Some m"
    using init_mesh by blast
  show ?thesis
    by (simp add: runOps_def speedInvariant_def updateRotation_speed updateRotation_frame
        updateRotationSpeed_def setRotationConfig_def raiseMinSpeed_def spread_def
        init_rotation m defaultRotationConfig_def updateRotation_def Let_def)
qed

text \<open>
  C6, amended. From any state with ordered bounds, a non-negative smoothing rate and
  both speeds within the bounds (the constructor's state is one), the current speed
  stays within \<open>[minSpeed, maxSpeed]\<close> after every prefix of any sequence of
  \<open>setRotationSpeed\<close>, \<open>setRotationSpeedImmediate\<close>, \<open>setRotationDirection\<close>,
  \<open>stopRotation\<close>, \<open>stopRotationImmediate\<close>, updates with non-negative elapsed time,
  and \<open>setRotationConfig\<close> calls that leave both bounds unchanged and set no negative
  smoothing rate.
\<close>

theorem speed_bounds_kept:
  assumes "controllerInvariant s" and "list_all keepsBounds ops"
  shows "speedInvariant (runOps s (take n ops))"
  using runOps_keeps_invariant[OF assms(1) list_all_take[OF assms(2)], of n]
  by (simp add: controllerInvariant_def)

theorem speed_bounds_kept_witness:
  "controllerInvariant (new_DiscoBall flatGeometry noOptions)
   \<and> list_all keepsBounds [SetSpeed 9, Update 16, Stop, Update 16]
   \<and> speedInvariant (runOps (new_DiscoBall flatGeometry noOptions)
        (take 4 [SetSpeed 9, Update 16, Stop, Update 16]))"
  using speed_bounds_kept[of "new_DiscoBall flatGeometry noOptions"
      "[SetSpeed 9, Update 16, Stop, Update 16]" 4]
  by (simp add: new_DiscoBall_invariant)

subsection \<open>Stopping\<close>

lemma updateRotationSpeed_above_target:
  assumes "targetRotationSpeed s \<le> rotationSpeed s"
  shows "targetRotationSpeed s \<le> rotationSpeed (updateRotationSpeed s dt)"
proof (cases "\<bar>rotationSpeed s - targetRotationSpeed s\<bar> > 0.01")
  case True
  define t where "t = min (speedTransitionRate (rotationConfig s) * (dt * 0.001)) 1.0"
  have t1: "0 \<le> 1 - t" by (simp add: t_def)
  have "lerp (rotationSpeed s) (targetRotationSpeed s) t
          = targetRotationSpeed s + (1 - t) * (rotationSpeed s - targetRotationSpeed s)"
    by (simp add: lerp_def algebra_simps)
  moreover have "0 \<le> (1 - t) * (rotationSpeed s - targetRotationSpeed s)"
    using t1 assms by simp
  ultimately have "targetRotationSpeed s \<le> lerp (rotationSpeed s) (targetRotationSpeed s) t"
    by simp
  then show ?thesis using True by (simp add: updateRotationSpeed_def Let_def t_def)
next
  case False
  then show ?thesis by (simp add: updateRotationSpeed_def)
qed

lemma updateRotation_above_target:
  "targetRotationSpeed s \<le> rotationSpeed s \<Longrightarrow>
     targetRotationSpeed s \<le> rotationSpeed (updateRotation s dt)"
  by (simp add: updateRotation_speed updateRotationSpeed_above_target split: option.splits)

lemma runUpdates_above_target:
  "targetRotationSpeed s \<le> rotationSpeed s \<Longrightarrow>
     targetRotationSpeed s \<le> rotationSpeed (runOps s (map Update dts))"
proof (induction dts rule: rev_induct)
  case Nil
  then show ?case by (simp add: runOps_def)
next
  case (snoc dt dts)
  let ?a = "runOps s (map Update dts)"
  have "targetRotationSpeed ?a \<le> rotationSpeed ?a"
    using snoc runUpdates_frame[of s dts] by simp
  from updateRotation_above_target[OF this, of dt] show ?case
    using runUpdates_frame[of s dts] by (simp add: runOps_snoc)
qed

text \<open>
  C10. With a positive \<open>minSpeed\<close> (0.1 in the constructor's configuration) and a
  current speed not below it, \<open>stopRotation()\<close> stores \<open>minSpeed\<close> as the target, and
  after any sequence of updates, whatever the elapsed times, the target is still
  \<open>minSpeed\<close> and the current speed is at least \<open>minSpeed\<close>: it never becomes zero.
\<close>

theorem stopRotation_never_stops:
  assumes "0 < minSpeed (rotationConfig s)"
    and "minSpeed (rotationConfig s) \<le> rotationSpeed s"
  shows "targetRotationSpeed (stopRotation s) = minSpeed (rotationConfig s)
       \<and> targetRotationSpeed (runOps (stopRotation s) (map Update dts))
           = minSpeed (rotationConfig s)
       \<and> minSpeed (rotationConfig s) \<le> rotationSpeed (runOps (stopRotation s) (map Update dts))
       \<and> rotationSpeed (runOps (stopRotation s) (map Update dts)) \<noteq> 0"
proof -
  have t: "targetRotationSpeed (stopRotation s) = minSpeed (rotationConfig s)"
    using assms(1) by (simp add: stopRotation_def setRotationSpeed_def)
  have sp: "rotationSpeed (stopRotation s) = rotationSpeed s"
    by (simp add: stopRotation_def setRotationSpeed_def)
  have "targetRotationSpeed (stopRotation s) \<le> rotationSpeed (stopRotation s)"
    using t sp assms(2) by simp
  from runUpdates_above_target[OF this, of dts]
  have ge: "minSpeed (rotationConfig s) \<le> rotationSpeed (runOps (stopRotation s) (map Update dts))"
    using t by simp
  show ?thesis using t ge assms(1) runUpdates_frame[of "stopRotation s" dts] by auto
qed

theorem stopRotation_never_stops_witness:
  "0 < minSpeed (rotationConfig (new_DiscoBall flatGeometry noOptions))
   \<and> minSpeed (rotationConfig (new_DiscoBall flatGeometry noOptions))
       \<le> rotationSpeed (new_DiscoBall flatGeometry noOptions)
   \<and> targetRotationSpeed (stopRotation (new_DiscoBall flatGeometry noOptions)) = 1 / 10
   \<and> rotationSpeed (runOps (stopRotation (new_DiscoBall flatGeometry noOptions))
        (map Update [16, 1000, 100000])) \<noteq> 0"
  using stopRotation_never_stops[of "new_DiscoBall flatGeometry noOptions" "[16, 1000, 100000]"]
  by (simp add: init_rotation defaultRotationConfig_def)

subsection \<open>The roll angle\<close>

lemma updateRotation_angles:
  assumes "mesh s = Some m"
  shows "rot_y (currentRotation (updateRotation s dt))
           = rot_y (currentRotation s) + rotationDeltaOf (updateRotation s dt) dt"
    and "rot_x (currentRotation (updateRotation s dt))
           = rot_x (currentRotation s)
             + rotationDeltaOf (updateRotation s dt) dt * xAxisFactor (rotationConfig s)"
    and "rot_z (currentRotation (updateRotation s dt))
           = rot_z (currentRotation s)
             + sin (rot_y (currentRotation (updateRotation s dt)) * 2)
               * zAxisFactor (rotationConfig s) * rotationDeltaOf (updateRotation s dt) dt"
    and "mesh (updateRotation s dt)
           = Some (m\<lparr>mesh_rotation := currentRotation (updateRotation s dt)\<rparr>)"
  using assms
  by (simp_all add: updateRotation_def Let_def rotationDeltaOf_def updateRotationSpeed_frame)

lemma one_frame:
  "rotationSpeed (updateRotation (new_DiscoBall flatGeometry noOptions) 250) = 1"
  "rotationDirection (updateRotation (new_DiscoBall flatGeometry noOptions) 250) = 1"
  "rot_y (currentRotation (updateRotation (new_DiscoBall flatGeometry noOptions) 250)) = 1/4"
  "rot_z (currentRotation (updateRotation (new_DiscoBall flatGeometry noOptions) 250))
     = sin (1/2) / 80"
  "rotationConfig (updateRotation (new_DiscoBall flatGeometry noOptions) 250) = defaultRotationConfig"
  "targetRotationSpeed (updateRotation (new_DiscoBall flatGeometry noOptions) 250) = 1"
proof -
  obtain m where m: "mesh (new_DiscoBall flatGeometry noOptions) = Some m"
    using init_mesh by blast
  show "rotationSpeed (updateRotation (new_DiscoBall flatGeometry noOptions) 250) = 1"
    "rotationDirection (updateRotation (new_DiscoBall flatGeometry noOptions) 250) = 1"
    "rot_y (currentRotation (updateRotation (new_DiscoBall flatGeometry noOptions) 250)) = 1/4"
    "rot_z (currentRotation (updateRotation (new_DiscoBall flatGeometry noOptions) 250))
       = sin (1/2) / 80"
    "rotationConfig (updateRotation (new_DiscoBall flatGeometry noOptions) 250) = defaultRotationConfig"
    "targetRotationSpeed (updateRotation (new_DiscoBall flatGeometry noOptions) 250) = 1"
    by (simp_all add: updateRotation_def Let_def m updateRotationSpeed_def init_rotation
        defaultRotationConfig_def)
qed

lemma two_frames:
  "rotationSpeed twoFrames = 1"
  "rotationDirection twoFrames = 1"
  "rot_y (currentRotation twoFrames) = 1/2"
  "rot_z (currentRotation twoFrames) = sin (1/2) / 80 + sin 1 / 80"
  "zAxisFactor (rotationConfig twoFrames) = 1/20"
  "\<exists>m. mesh twoFrames = Some m \<and> mesh_rotation m = currentRotation twoFrames"
proof -
  obtain m where m: "mesh (new_DiscoBall flatGeometry noOptions) = Some m"
    using init_mesh by blast
  have m1: "mesh (updateRotation (new_DiscoBall flatGeometry noOptions) 250)
              = Some (m\<lparr>mesh_rotation :=
                   currentRotation (updateRotation (new_DiscoBall flatGeometry noOptions) 250)\<rparr>)"
    using updateRotation_angles(4)[OF m] by simp
  show "rotationSpeed twoFrames = 1"
    "rotationDirection twoFrames = 1"
    "rot_y (currentRotation twoFrames) = 1/2"
    "rot_z (currentRotation twoFrames) = sin (1/2) / 80 + sin 1 / 80"
    "zAxisFactor (rotationConfig twoFrames) = 1/20"
    "\<exists>m. mesh twoFrames = Some m \<and> mesh_rotation m = currentRotation twoFrames"
    unfolding twoFrames_def
    by (simp_all add: updateRotation_def[of "updateRotation _ _"] Let_def m1 updateRotationSpeed_def
        one_frame defaultRotationConfig_def)
qed

text \<open>
  C4, as the claim states it, fails: the roll written to the mesh is the accumulated
  roll, not the single oscillatory term. After two frames of 250 ms from the
  constructor's state the applied roll is \<open>sin(1/2)/80 + sin(1)/80\<close>, which is neither
  \<open>sin(yaw * 2) * zAxisFactor * dyaw\<close> for the yaw after the second frame nor for the
  yaw before it.
\<close>

theorem roll_not_oscillatory_value_counterexample:
  "rot_z (mesh_rotation (the (mesh twoFrames)))
     \<noteq> sin (rot_y (currentRotation twoFrames) * 2) * zAxisFactor (rotationConfig twoFrames)
         * (rotationSpeed twoFrames * rotationDirection twoFrames * 250 * 0.001)
   \<and> rot_z (mesh_rotation (the (mesh twoFrames)))
     \<noteq> sin (rot_y (currentRotation (updateRotation (new_DiscoBall flatGeometry noOptions) 250)) * 2)
         * zAxisFactor (rotationConfig twoFrames)
         * (rotationSpeed twoFrames * rotationDirection twoFrames * 250 * 0.001)"
proof -
  obtain m where m: "mesh twoFrames = Some m" "mesh_rotation m = currentRotation twoFrames"
    using two_frames(6) by blast
  have s1: "0 < sin (1/2 :: real)" by (rule sin_gt_zero_02) simp_all
  have s2: "0 < sin (1 :: real)" by (rule sin_gt_zero_02) simp_all
  show ?thesis using s1 s2 by (simp add: m two_frames one_frame)
qed

text \<open>
  C4, amended. In every update of a sphere that has a mesh, with
  \<open>dyaw = currentSpeed * direction * deltaTime * 0.001\<close> computed from the smoothed
  speed, the yaw grows by \<open>dyaw\<close>, the roll grows by
  \<open>sin(yaw * 2) * zAxisFactor * dyaw\<close> for the new yaw, that increment is at most
  \<open>|zAxisFactor * dyaw|\<close> in magnitude, and the accumulated angles are what is written
  to the mesh.
\<close>

theorem roll_accumulates:
  assumes "mesh s = Some m"
    and "s' = updateRotation s deltaTime"
    and "dyaw = rotationSpeed s' * rotationDirection s' * deltaTime * 0.001"
  shows "rot_y (currentRotation s') = rot_y (currentRotation s) + dyaw
       \<and> rot_z (currentRotation s')
           = rot_z (currentRotation s)
             + sin (rot_y (currentRotation s') * 2) * zAxisFactor (rotationConfig s) * dyaw
       \<and> \<bar>rot_z (currentRotation s') - rot_z (currentRotation s)\<bar>
           \<le> \<bar>zAxisFactor (rotationConfig s) * dyaw\<bar>
       \<and> mesh s' = Some (m\<lparr>mesh_rotation := currentRotation s'\<rparr>)"
proof -
  have d: "dyaw = rotationDeltaOf s' deltaTime" using assms(3) by (simp add: rotationDeltaOf_def)
  note a = updateRotation_angles[OF assms(1), of deltaTime, folded assms(2), folded d]
  have "\<bar>sin (rot_y (currentRotation s') * 2) * (zAxisFactor (rotationConfig s) * dyaw)\<bar>
          \<le> 1 * \<bar>zAxisFactor (rotationConfig s) * dyaw\<bar>"
    unfolding abs_mult by (intro mult_right_mono) simp_all
  then have b: "\<bar>rot_z (currentRotation s') - rot_z (currentRotation s)\<bar>
           \<le> \<bar>zAxisFactor (rotationConfig s) * dyaw\<bar>"
    using a(3) by (simp add: mult.assoc)
  show ?thesis using a(1) a(3) a(4) b by blast
qed

theorem roll_accumulates_witness:
  "mesh (new_DiscoBall flatGeometry noOptions)
     = Some (the (mesh (new_DiscoBall flatGeometry noOptions)))
   \<and> rot_z (currentRotation (updateRotation (new_DiscoBall flatGeometry noOptions) 250))
       = rot_z (currentRotation (new_DiscoBall flatGeometry noOptions))
         + sin (rot_y (currentRotation (updateRotation (new_DiscoBall flatGeometry noOptions) 250)) * 2)
           * zAxisFactor (rotationConfig (new_DiscoBall flatGeometry noOptions))
           * (rotationSpeed (updateRotation (new_DiscoBall flatGeometry noOptions) 250)
              * rotationDirection (updateRotation (new_DiscoBall flatGeometry noOptions) 250)
              * 250 * 0.001)"
proof -
  have h: "mesh (new_DiscoBall flatGeometry noOptions)
             = Some (the (mesh (new_DiscoBall flatGeometry noOptions)))"
    using init_mesh[of flatGeometry noOptions] by auto
  from roll_accumulates[OF h refl refl, of 250] h show ?thesis by blast
qed

section \<open>Properties of aperture placement and construction\<close>

subsection \<open>The loop as a map over the indices\<close>

lemma generateHoles_loop_map:
  "generateHoles_loop numHoles r i acc = acc @ map (makeHole numHoles r) [i ..< nat \<lceil>numHoles\<rceil>]"
proof (induction numHoles r i acc rule: generateHoles_loop.induct)
  case (1 numHoles r i acc)
  show ?case
  proof (cases "real i < numHoles")
    case True
    then have lt: "i < nat \<lceil>numHoles\<rceil>" by linarith
    have "generateHoles_loop numHoles r i acc
            = generateHoles_loop numHoles r (i + 1) (acc @ [makeHole numHoles r i])"
      using True by (subst generateHoles_loop.simps) simp
    also have "\<dots> = (acc @ [makeHole numHoles r i])
                       @ map (makeHole numHoles r) [i + 1 ..< nat \<lceil>numHoles\<rceil>]"
      using "1.IH"[OF True] .
    also have "\<dots> = acc @ map (makeHole numHoles r) [i ..< nat \<lceil>numHoles\<rceil>]"
      using lt by (simp add: upt_conv_Cons)
    finally show ?thesis .
  next
    case False
    then have ge: "nat \<lceil>numHoles\<rceil> \<le> i" by linarith
    have "generateHoles_loop numHoles r i acc = acc"
      using False by (subst generateHoles_loop.simps) simp
    then show ?thesis using ge by simp
  qed
qed

lemma generateHoles_loop_none:
  "\<not> real i < numHoles \<Longrightarrow> generateHoles_loop numHoles r i acc = acc"
  by (subst generateHoles_loop.simps) simp

lemma holes_generateHoles:
  "cfg_holes (config s) = real N \<Longrightarrow>
     holes (generateHoles s) = map (makeHole (real N) (radius (config s))) [0 ..< N]"
  by (simp add: generateHoles_def generateHoles_loop_map)

lemma unit_direction:
  "vlength (Vector3 (sin p * cos t) (sin p * sin t) (cos p)) = 1"
proof -
  have "(sin p * cos t)\<^sup>2 + (sin p * sin t)\<^sup>2 + (cos p)\<^sup>2
          = (sin p)\<^sup>2 * ((cos t)\<^sup>2 + (sin t)\<^sup>2) + (cos p)\<^sup>2"
    by (simp only: power_mult_distrib distrib_left)
  also have "\<dots> = 1" by simp
  finally have "(sin p * cos t) * (sin p * cos t) + (sin p * sin t) * (sin p * sin t)
                  + cos p * cos p = 1"
    by (simp only: power2_eq_square)
  then show ?thesis by (simp only: vlength_def Vector3_def vec3.simps real_sqrt_one)
qed

lemma vlength_multiplyScalar: "vlength (multiplyScalar v k) = vlength v * \<bar>k\<bar>"
proof -
  have "vx v * k * (vx v * k) + vy v * k * (vy v * k) + vz v * k * (vz v * k)
          = (vx v * vx v + vy v * vy v + vz v * vz v) * k\<^sup>2"
    by (simp add: power2_eq_square algebra_simps)
  then show ?thesis
    by (simp add: vlength_def multiplyScalar_def real_sqrt_mult)
qed

lemma makeHole_props:
  assumes "i < N"
  shows "hole_id (makeHole (real N) r i) = i"
    and "hole_theta (makeHole (real N) r i) = 2 * pi * real i / ((1 + sqrt 5) / 2)"
    and "cos (hole_phi (makeHole (real N) r i)) = 1 - 2 * (real i + 0.5) / real N"
    and "hole_direction (makeHole (real N) r i)
           = Vector3 (sin (hole_phi (makeHole (real N) r i)) * cos (hole_theta (makeHole (real N) r i)))
                     (sin (hole_phi (makeHole (real N) r i)) * sin (hole_theta (makeHole (real N) r i)))
                     (cos (hole_phi (makeHole (real N) r i)))"
    and "vlength (hole_direction (makeHole (real N) r i)) = 1"
    and "hole_position (makeHole (real N) r i)
           = multiplyScalar (hole_direction (makeHole (real N) r i)) r"
    and "hole_normal (makeHole (real N) r i) = hole_direction (makeHole (real N) r i)"
proof -
  have N: "0 < real N" using assms by simp
  have le: "real i + 0.5 \<le> real N" using assms by simp
  have q0: "0 \<le> (real i + 0.5) / real N" using N by simp
  have q1: "(real i + 0.5) / real N \<le> 1" using N le by (simp add: divide_le_eq)
  have tw: "2 * (real i + 0.5) / real N = 2 * ((real i + 0.5) / real N)" by simp
  have lo: "- 1 \<le> 1 - 2 * (real i + 0.5) / real N" unfolding tw using q1 by linarith
  have hi: "1 - 2 * (real i + 0.5) / real N \<le> 1" unfolding tw using q0 by linarith
  show "hole_id (makeHole (real N) r i) = i" by (simp add: makeHole_def Let_def)
  show "hole_theta (makeHole (real N) r i) = 2 * pi * real i / ((1 + sqrt 5) / 2)"
    by (simp add: makeHole_def Let_def goldenRatio_def)
  show "cos (hole_phi (makeHole (real N) r i)) = 1 - 2 * (real i + 0.5) / real N"
    using cos_arccos[OF lo hi] by (simp add: makeHole_def Let_def)
  show d: "hole_direction (makeHole (real N) r i)
           = Vector3 (sin (hole_phi (makeHole (real N) r i)) * cos (hole_theta (makeHole (real N) r i)))
                     (sin (hole_phi (makeHole (real N) r i)) * sin (hole_theta (makeHole (real N) r i)))
                     (cos (hole_phi (makeHole (real N) r i)))"
    by (simp add: makeHole_def Let_def)
  show "vlength (hole_direction (makeHole (real N) r i)) = 1"
    by (subst d) (rule unit_direction)
  show "hole_position (makeHole (real N) r i)
           = multiplyScalar (hole_direction (makeHole (real N) r i)) r"
    by (simp add: makeHole_def Let_def)
  show "hole_normal (makeHole (real N) r i) = hole_direction (makeHole (real N) r i)"
    by (simp add: makeHole_def Let_def)
qed

lemma init_config: "config (new_DiscoBall G c) = mergeConfig c"
  by (simp add: new_DiscoBall_def init_def createHoleVisuals_def createMesh_def
      createMaterial_def createHoleGeometry_def generateHoles_def createGeometry_def
      split: option.splits)

subsection \<open>The spherical Fibonacci placement\<close>

text \<open>
  C1. With \<open>N\<close> apertures configured and radius \<open>r > 0\<close>, \<open>generateHoles\<close> produces
  exactly \<open>N\<close> records, and the record at index \<open>i < N\<close> has id \<open>i\<close>, azimuth
  \<open>2 * pi * i / phi\<close> with \<open>phi = (1 + sqrt 5) / 2\<close>, a polar angle whose cosine is
  \<open>1 - 2 * (i + 0.5) / N\<close>, as direction the Cartesian vector of the two angles, of
  length 1, and as position the direction scaled by \<open>r\<close>, of length \<open>r\<close>. The sequence
  depends on \<open>N\<close> and \<open>r\<close> alone. The arithmetic is that of the real numbers, in
  which the two lengths are exact.
\<close>

theorem generateHoles_fibonacci:
  assumes "cfg_holes (config s) = real N" and "radius (config s) = r" and "0 < r"
    and "hs = holes (generateHoles s)"
  shows "length hs = N
       \<and> (\<forall>i<N. hole_id (hs ! i) = i
              \<and> hole_theta (hs ! i) = 2 * pi * real i / ((1 + sqrt 5) / 2)
              \<and> cos (hole_phi (hs ! i)) = 1 - 2 * (real i + 0.5) / real N
              \<and> hole_direction (hs ! i)
                  = Vector3 (sin (hole_phi (hs ! i)) * cos (hole_theta (hs ! i)))
                            (sin (hole_phi (hs ! i)) * sin (hole_theta (hs ! i)))
                            (cos (hole_phi (hs ! i)))
              \<and> vlength (hole_direction (hs ! i)) = 1
              \<and> hole_position (hs ! i) = multiplyScalar (hole_direction (hs ! i)) r
              \<and> vlength (hole_position (hs ! i)) = r)
       \<and> (\<forall>s'. cfg_holes (config s') = real N \<and> radius (config s') = r
              \<longrightarrow> holes (generateHoles s') = hs)"
proof -
  have hs: "hs = map (makeHole (real N) r) [0 ..< N]"
    using holes_generateHoles[OF assms(1)] assms(2,4) by simp
  have len: "length hs = N" by (simp add: hs)
  have nth: "hs ! i = makeHole (real N) r i" if "i < N" for i
    using that by (simp add: hs)
  have each: "hole_id (hs ! i) = i
              \<and> hole_theta (hs ! i) = 2 * pi * real i / ((1 + sqrt 5) / 2)
              \<and> cos (hole_phi (hs ! i)) = 1 - 2 * (real i + 0.5) / real N
              \<and> hole_direction (hs ! i)
                  = Vector3 (sin (hole_phi (hs ! i)) * cos (hole_theta (hs ! i)))
                            (sin (hole_phi (hs ! i)) * sin (hole_theta (hs ! i)))
                            (cos (hole_phi (hs ! i)))
              \<and> vlength (hole_direction (hs ! i)) = 1
              \<and> hole_position (hs ! i) = multiplyScalar (hole_direction (hs ! i)) r
              \<and> vlength (hole_position (hs ! i)) = r" if "i < N" for i
  proof -
    note p = makeHole_props[OF that, of r]
    have "vlength (hole_position (makeHole (real N) r i)) = r"
      using assms(3) by (simp add: p(6) vlength_multiplyScalar p(5))
    then show ?thesis unfolding nth[OF that]
      by (intro conjI p(1) p(2) p(3) p(4) p(5) p(6))
  qed
  have det: "\<forall>s'. cfg_holes (config s') = real N \<and> radius (config s') = r
              \<longrightarrow> holes (generateHoles s') = hs"
  proof (intro allI impI)
    fix s' :: discoBall
    assume a: "cfg_holes (config s') = real N \<and> radius (config s') = r"
    then have "holes (generateHoles s') = map (makeHole (real N) (radius (config s'))) [0 ..< N]"
      using holes_generateHoles[of s' N] by blast
    then show "holes (generateHoles s') = hs" using a hs by simp
  qed
  have all: "\<forall>i<N. hole_id (hs ! i) = i
              \<and> hole_theta (hs ! i) = 2 * pi * real i / ((1 + sqrt 5) / 2)
              \<and> cos (hole_phi (hs ! i)) = 1 - 2 * (real i + 0.5) / real N
              \<and> hole_direction (hs ! i)
                  = Vector3 (sin (hole_phi (hs ! i)) * cos (hole_theta (hs ! i)))
                            (sin (hole_phi (hs ! i)) * sin (hole_theta (hs ! i)))
                            (cos (hole_phi (hs ! i)))
              \<and> vlength (hole_direction (hs ! i)) = 1
              \<and> hole_position (hs ! i) = multiplyScalar (hole_direction (hs ! i)) r
              \<and> vlength (hole_position (hs ! i)) = r"
    using each by (intro allI impI)
  from len all det show ?thesis by (intro conjI)
qed

theorem generateHoles_fibonacci_witness:
  "cfg_holes (config (new_DiscoBall flatGeometry noOptions)) = real 12
   \<and> radius (config (new_DiscoBall flatGeometry noOptions)) = 2
   \<and> length (holes (generateHoles (new_DiscoBall flatGeometry noOptions))) = 12
   \<and> hole_id (holes (generateHoles (new_DiscoBall flatGeometry noOptions)) ! 3) = 3
   \<and> cos (hole_phi (holes (generateHoles (new_DiscoBall flatGeometry noOptions)) ! 3))
       = 1 - 2 * (real 3 + 0.5) / real 12
   \<and> vlength (hole_direction (holes (generateHoles (new_DiscoBall flatGeometry noOptions)) ! 3)) = 1
   \<and> vlength (hole_position (holes (generateHoles (new_DiscoBall flatGeometry noOptions)) ! 3)) = 2"
proof -
  let ?s = "new_DiscoBall flatGeometry noOptions"
  have h1: "cfg_holes (config ?s) = real 12"
    by (simp add: init_config mergeConfig_def noOptions_def spread_def orDefault_def)
  have h2: "radius (config ?s) = 2"
    by (simp add: init_config mergeConfig_def noOptions_def spread_def orDefault_def)
  have h3: "0 < (2 :: real)" by simp
  have i: "(3 :: nat) < 12" by simp
  from generateHoles_fibonacci[OF h1 h2 h3 refl] i h1 h2 show ?thesis by blast
qed

subsection \<open>Construction without apertures\<close>

text \<open>
  C3. Constructing the sphere with \<open>holes: 0\<close> runs every step of \<open>init\<close> and leaves an
  empty aperture sequence: the configured count is 0 (the spread writes the argument's 0
  over the default 12), the geometry is the undeformed sphere, the material and the
  mesh exist, and the mesh has no aperture children. No step of the constructor has a
  failing branch.
\<close>

theorem zero_holes_constructs:
  assumes "opt_holes c = Some 0"
  shows "holes (new_DiscoBall G c) = []
       \<and> cfg_holes (config (new_DiscoBall G c)) = 0
       \<and> geometry (new_DiscoBall G c)
           = Some (G (radius (mergeConfig c)) (segments (mergeConfig c)) (segments (mergeConfig c)))
       \<and> material (new_DiscoBall G c)
       \<and> mesh (new_DiscoBall G c)
           = Some \<lparr>mesh_position = Vector3 0 0 0,
                   mesh_rotation = \<lparr>rot_x = 0, rot_y = 0, rot_z = 0\<rparr>,
                   mesh_children = []\<rparr>"
proof -
  have z: "cfg_holes (mergeConfig c) = 0"
    using assms by (simp add: mergeConfig_def spread_def)
  show ?thesis
    by (simp add: new_DiscoBall_def init_def createHoleVisuals_def createMesh_def
        createMaterial_def createHoleGeometry_def generateHoles_def createGeometry_def
        generateHoles_loop_none z)
qed

theorem zero_holes_constructs_witness:
  "opt_holes noHoles = Some 0
   \<and> holes (new_DiscoBall flatGeometry noHoles) = []
   \<and> mesh (new_DiscoBall flatGeometry noHoles)
       = Some \<lparr>mesh_position = Vector3 0 0 0,
               mesh_rotation = \<lparr>rot_x = 0, rot_y = 0, rot_z = 0\<rparr>,
               mesh_children = []\<rparr>"
proof -
  have h: "opt_holes noHoles = Some 0" by (simp add: noHoles_def)
  from zero_holes_constructs[OF h, of flatGeometry] h show ?thesis by blast
qed

section \<open>Properties of the beam system\<close>

subsection \<open>Colours, palette indices and the sample system\<close>

lemma white: "Color_hex 0xffffff = \<lparr>cr = 1, cg = 1, cb = 1\<rparr>"
  by (simp add: Color_hex_def)

lemma jsmod1_range: "- 1 < jsmod1 x \<and> jsmod1 x < 1"
  unfolding jsmod1_def by (auto; linarith)

lemma jsmod1_nonneg: "0 \<le> x \<Longrightarrow> 0 \<le> jsmod1 x"
  unfolding jsmod1_def by (auto; linarith)

lemma getRainbowColor_indices:
  assumes "palette \<noteq> []"
  shows "nat \<lfloor>jsmod1 (jsmod1 t + 1.0) * (real (length palette) - 1)\<rfloor> < length palette
       \<and> nat \<lceil>jsmod1 (jsmod1 t + 1.0) * (real (length palette) - 1)\<rceil> mod length palette
           < length palette"
proof -
  define u where "u = jsmod1 (jsmod1 t + 1.0)"
  have u0: "0 \<le> u" unfolding u_def using jsmod1_range[of t] by (intro jsmod1_nonneg) simp
  have u1: "u < 1" unfolding u_def using jsmod1_range by simp
  have n: "1 \<le> real (length palette)" using assms by (cases palette) simp_all
  have "u * (real (length palette) - 1) \<le> 1 * (real (length palette) - 1)"
    using u1 n by (intro mult_right_mono) simp_all
  then have "u * (real (length palette) - 1) < real (length palette)" by simp
  then have "\<lfloor>u * (real (length palette) - 1)\<rfloor> < int (length palette)"
    by (simp add: floor_less_iff)
  then have "nat \<lfloor>u * (real (length palette) - 1)\<rfloor> < length palette"
    using assms by (cases "0 \<le> \<lfloor>u * (real (length palette) - 1)\<rfloor>") (simp_all add: nat_less_iff)
  moreover have "nat \<lceil>u * (real (length palette) - 1)\<rceil> mod length palette < length palette"
    using assms by simp
  ultimately show ?thesis unfolding u_def by simp
qed

lemma sampleBall_holes: "holes sampleBall = [makeHole 1 2 0]"
proof -
  have "holes sampleBall = generateHoles_loop 1 2 0 []"
    by (simp add: sampleBall_def new_DiscoBall_def init_def createHoleVisuals_def createMesh_def
      createMaterial_def createHoleGeometry_def generateHoles_def createGeometry_def
      mergeConfig_def oneHole_def noOptions_def spread_def orDefault_def split: option.splits)
  also have "\<dots> = [makeHole 1 2 0]"
    by (simp add: generateHoles_loop_map)
  finally show ?thesis .
qed

lemma updateColors_loop_white:
  assumes "colorMode (lbs_config s) = ''white''"
  shows "updateColors_loop setHSL rnd s bs k
           = (map (\<lambda>b. b\<lparr>currentColor := clerp (currentColor b) (Color_hex 0xffffff) 0.05,
                          beam_material := (beam_material b)
                             \<lparr>u_color := clerp (currentColor b) (Color_hex 0xffffff) 0.05\<rparr>\<rparr>) bs, k)"
  using assms
  by (induction bs arbitrary: k) (simp_all add: updateBeamColor_def Let_def)

lemma clerp_white_fixed:
  "clerp c (Color_hex 0xffffff) 0.05 = Color_hex 0xffffff \<longleftrightarrow> c = Color_hex 0xffffff"
proof -
  have "clerp c \<lparr>cr = 1, cg = 1, cb = 1\<rparr> 0.05 = \<lparr>cr = 1, cg = 1, cb = 1\<rparr>
          \<longleftrightarrow> cr c = 1 \<and> cg c = 1 \<and> cb c = 1"
  proof -
    have e: "x + (1 - x) / 20 = 1 \<longleftrightarrow> x = 1" for x :: real by (simp add: field_simps)
    show ?thesis by (simp add: clerp_def e)
  qed
  moreover have "cr c = 1 \<and> cg c = 1 \<and> cb c = 1 \<longleftrightarrow> c = \<lparr>cr = 1, cg = 1, cb = 1\<rparr>"
    by (cases c) simp
  ultimately show ?thesis by (simp only: white)
qed

lemma sampleSystem_beams:
  "length (beams sampleSystem) = 1"
  "currentColor (beams sampleSystem ! 0) = \<lparr>cr = 1, cg = 19/20, cb = 19/20\<rparr>"
  "colorMode (lbs_config sampleSystem) = ''rainbow''"
  by (simp_all add: sampleSystem_def new_LightBeamSystem_def createBeams_def updateColors_def
      sampleBall_holes makeBeam_def updateBeamColor_def Let_def defaultBeamConfig_def
      getRainbowColor_def jsmod1_def clerp_def Color_hex_def)

lemma whiteSystem_facts:
  "colorMode (lbs_config whiteSystem) = ''white''"
  "length (beams whiteSystem) = 1"
  "currentColor (beams whiteSystem ! 0) = \<lparr>cr = 1, cg = 19/20, cb = 19/20\<rparr>"
  by (simp_all add: whiteSystem_def setColorMode_def sampleSystem_beams)

subsection \<open>White mode\<close>

text \<open>
  C5, as the claim states it, fails: in white mode the current colour is blended towards
  white like in the other modes, not set to white. The sample system's beam, coloured
  \<open>(1, 0.95, 0.95)\<close> by the rainbow update that ends its creation, is not white after
  an update in white mode.
\<close>

theorem white_mode_not_immediate_counterexample:
  "colorMode (lbs_config whiteSystem) = ''white''
   \<and> currentColor (beams (fst (updateColors hslColor steadyRandom whiteSystem 1)) ! 0)
       \<noteq> Color_hex 0xffffff"
  by (simp add: whiteSystem_facts updateColors_def updateColors_loop_white white clerp_def
      nth_map)

text \<open>
  C5, amended. In white mode every update takes constant white as each beam's target
  and moves the beam's current colour towards it by the blend factor 0.05 that the
  other modes use; the result is copied to the beam's colour uniform; the current
  colour is white after the update exactly when it was white before; no random number
  is drawn and the number of beams is unchanged.
\<close>

theorem white_mode_blends:
  assumes "colorMode (lbs_config s) = ''white''"
    and "i < length (beams s)"
    and "s' = fst (updateColors setHSL rnd s k)"
  shows "length (beams s') = length (beams s)
       \<and> currentColor (beams s' ! i)
           = clerp (currentColor (beams s ! i)) (Color_hex 0xffffff) 0.05
       \<and> u_color (beam_material (beams s' ! i)) = currentColor (beams s' ! i)
       \<and> (currentColor (beams s' ! i) = Color_hex 0xffffff
            \<longleftrightarrow> currentColor (beams s ! i) = Color_hex 0xffffff)
       \<and> snd (updateColors setHSL rnd s k) = k"
proof -
  have bs: "beams s' = map (\<lambda>b. b\<lparr>currentColor := clerp (currentColor b) (Color_hex 0xffffff) 0.05,
                          beam_material := (beam_material b)
                             \<lparr>u_color := clerp (currentColor b) (Color_hex 0xffffff) 0.05\<rparr>\<rparr>) (beams s)"
    and k: "snd (updateColors setHSL rnd s k) = k"
    using assms(3) by (simp_all add: updateColors_def updateColors_loop_white[OF assms(1)])
  have c: "currentColor (beams s' ! i)
           = clerp (currentColor (beams s ! i)) (Color_hex 0xffffff) 0.05"
    and u: "u_color (beam_material (beams s' ! i)) = currentColor (beams s' ! i)"
    using assms(2) by (simp_all add: bs)
  have l: "length (beams s') = length (beams s)" by (simp add: bs)
  have f: "currentColor (beams s' ! i) = Color_hex 0xffffff
            \<longleftrightarrow> currentColor (beams s ! i) = Color_hex 0xffffff"
    unfolding c by (rule clerp_white_fixed)
  from l c u f k show ?thesis by (intro conjI)
qed

theorem white_mode_blends_witness:
  "colorMode (lbs_config whiteSystem) = ''white''
   \<and> 0 < length (beams whiteSystem)
   \<and> currentColor (beams (fst (updateColors hslColor steadyRandom whiteSystem 1)) ! 0)
       = clerp (currentColor (beams whiteSystem ! 0)) (Color_hex 0xffffff) 0.05
   \<and> snd (updateColors hslColor steadyRandom whiteSystem 1) = 1"
proof -
  have h1: "colorMode (lbs_config whiteSystem) = ''white''" by (rule whiteSystem_facts)
  have h2: "0 < length (beams whiteSystem)" by (simp add: whiteSystem_facts)
  from white_mode_blends[OF h1 h2 refl, of hslColor steadyRandom 1] h1 h2
  show ?thesis by blast
qed

subsection \<open>Selecting the colour mode\<close>

text \<open>
  C9. \<open>setColorMode(m)\<close> with \<open>m\<close> outside \<open>{rainbow, random, white}\<close> returns the
  state as it was, mode included; with \<open>m\<close> in the set it stores \<open>m\<close> as the mode and
  changes nothing else. The function has no failing branch.
\<close>

theorem setColorMode_validates:
  "(mode \<notin> {''rainbow'', ''random'', ''white''} \<longrightarrow> setColorMode s mode = s)
   \<and> (mode \<in> {''rainbow'', ''random'', ''white''} \<longrightarrow>
        colorMode (lbs_config (setColorMode s mode)) = mode
      \<and> setColorMode s mode = s\<lparr>lbs_config := (lbs_config s)\<lparr>colorMode := mode\<rparr>\<rparr>)"
  by (simp add: setColorMode_def)

theorem setColorMode_validates_witness:
  "setColorMode sampleSystem ''bogus'' = sampleSystem
   \<and> colorMode (lbs_config (setColorMode sampleSystem ''bogus'')) = ''rainbow''
   \<and> colorMode (lbs_config (setColorMode sampleSystem ''white'')) = ''white''"
  using setColorMode_validates[of "''bogus''" sampleSystem]
    setColorMode_validates[of "''white''" sampleSystem]
  by (simp add: sampleSystem_beams)

subsection \<open>Synchronisation with the rotating sphere\<close>

lemma syncWithDiscoBall_beams:
  assumes "db = Some ball" "mesh ball = Some m"
  shows "beams (syncWithDiscoBall L db s)
           = map (syncBeam L m (holes ball)) (zip (beams s) [0 ..< length (beams s)])"
    and "lbs_config (syncWithDiscoBall L db s) = lbs_config s"
    and "colorTime (syncWithDiscoBall L db s) = colorTime s"
    and "rainbowColors (syncWithDiscoBall L db s) = rainbowColors s"
  using assms by (simp_all add: syncWithDiscoBall_def)

lemma turnedBall_facts:
  "holes turnedBall = [makeHole 1 2 0]"
  "mesh turnedBall = Some (the (mesh turnedBall))"
proof -
  obtain m where m: "mesh sampleBall = Some m"
    unfolding sampleBall_def using init_mesh by blast
  have h: "holes (updateRotation sampleBall 250) = holes sampleBall"
    by (simp add: updateRotation_def Let_def updateRotationSpeed_def split: option.splits)
  show "holes turnedBall = [makeHole 1 2 0]"
    unfolding turnedBall_def h by (rule sampleBall_holes)
  show "mesh turnedBall = Some (the (mesh turnedBall))"
    unfolding turnedBall_def using updateRotation_angles(4)[OF m] by simp
qed

text \<open>In the concrete instance, the quaternion built from the up axis and a unit vector
  that is not opposite to it does turn the up axis onto that vector.\<close>

lemma threeModel_turns_up_onto:
  assumes unit: "a * a + b * b + c * c = 1" and away: "1 / 2 ^ 52 \<le> b + 1"
  shows "applyQuaternion threeModel (Vector3 0 1 0)
           (setFromUnitVectors threeModel (Vector3 0 1 0) \<lparr>vx = a, vy = b, vz = c\<rparr>)
         = \<lparr>vx = a, vy = b, vz = c\<rparr>"
proof -
  define l where "l = sqrt (c * c + 0 * 0 + (- a) * (- a) + (b + 1) * (b + 1))"
  have b1: "0 < b + 1" 
  proof -
    have "(0 :: real) < 1 / 2 ^ 52" by simp
    then show ?thesis using away by linarith
  qed
  have sq: "c * c + 0 * 0 + (- a) * (- a) + (b + 1) * (b + 1) = 2 * (b + 1)"
    using unit by (simp add: algebra_simps)
  have lpos: "0 < l" unfolding l_def sq using b1 by simp
  have l2: "l * l = 2 * (b + 1)" unfolding l_def sq using b1 by simp
  have ac: "a * a + c * c = (1 - b) * (1 + b)" using unit by (simp add: algebra_simps)
  have q: "setFromUnitVectors threeModel (Vector3 0 1 0) \<lparr>vx = a, vy = b, vz = c\<rparr>
             = \<lparr>qx = c / l, qy = 0, qz = - a / l, qw = (b + 1) / l\<rparr>"
    using away lpos
    by (simp add: threeModel_def Vector3_def Let_def quatNormalize_def l_def not_less)
  have x: "(b + 1) / l * (2 * (a / l)) = a"
  proof -
    have "(b + 1) / l * (2 * (a / l)) = a * (2 * (b + 1)) / (l * l)" by simp
    also have "\<dots> = a" unfolding l2 using b1 by simp
    finally show ?thesis .
  qed
  have z: "(b + 1) / l * (2 * (c / l)) = c"
  proof -
    have "(b + 1) / l * (2 * (c / l)) = c * (2 * (b + 1)) / (l * l)" by simp
    also have "\<dots> = c" unfolding l2 using b1 by simp
    finally show ?thesis .
  qed
  have y: "1 - a / l * (2 * (a / l)) - c / l * (2 * (c / l)) = b"
  proof -
    have "1 - a / l * (2 * (a / l)) - c / l * (2 * (c / l)) = 1 - 2 * (a * a + c * c) / (l * l)"
      by (simp add: algebra_simps add_divide_distrib)
    also have "\<dots> = 1 - 2 * ((1 - b) * (1 + b)) / (2 * (b + 1))" unfolding l2 ac ..
    also have "\<dots> = b" using b1 by (simp add: field_simps)
    finally show ?thesis .
  qed
  show ?thesis
    unfolding q using x y z
    by (simp add: threeModel_def Vector3_def Let_def)
qed

text \<open>
  C2. When the sphere has a mesh, with orientation quaternion \<open>Q\<close> and position \<open>P\<close>,
  the synchroniser gives every beam \<open>i\<close> that has an aperture the position
  \<open>Q\<close> applied to the aperture's position, plus \<open>P\<close>, and the orientation the library
  derives from the up axis \<open>(0, 1, 0)\<close> and the world direction, which is \<open>Q\<close> applied
  to the aperture's direction. Nothing else of the beam and of the system changes.
\<close>

theorem sync_places_beams:
  assumes "db = Some ball" and "mesh ball = Some m"
    and "i < length (beams s)" and "i < length (holes ball)"
    and "Q = setFromEuler L (mesh_rotation m)" and "P = mesh_position m"
    and "s' = syncWithDiscoBall L db s"
  shows "length (beams s') = length (beams s)
       \<and> bm_position (beam_mesh (beams s' ! i))
           = add (applyQuaternion L (hole_position (holes ball ! i)) Q) P
       \<and> bm_quaternion (beam_mesh (beams s' ! i))
           = setFromUnitVectors L (Vector3 0 1 0)
               (applyQuaternion L (hole_direction (holes ball ! i)) Q)
       \<and> beams s' ! i = (beams s ! i)\<lparr>beam_mesh := beam_mesh (beams s' ! i)\<rparr>
       \<and> lbs_config s' = lbs_config s
       \<and> colorTime s' = colorTime s"
proof -
  note b = syncWithDiscoBall_beams[OF assms(1,2), of L s, folded assms(7)]
  have n: "beams s' ! i = syncBeam L m (holes ball) (beams s ! i, i)"
    using assms(3) by (simp add: b(1))
  have l: "length (beams s') = length (beams s)" by (simp add: b(1))
  have p: "bm_position (beam_mesh (beams s' ! i))
           = add (applyQuaternion L (hole_position (holes ball ! i)) Q) P"
    using assms(4) by (simp add: n syncBeam_def Let_def assms(5,6))
  have q: "bm_quaternion (beam_mesh (beams s' ! i))
           = setFromUnitVectors L (Vector3 0 1 0)
               (applyQuaternion L (hole_direction (holes ball ! i)) Q)"
    using assms(4) by (simp add: n syncBeam_def Let_def assms(5,6))
  have r: "beams s' ! i = (beams s ! i)\<lparr>beam_mesh := beam_mesh (beams s' ! i)\<rparr>"
    using assms(4) by (simp add: n syncBeam_def Let_def)
  from l p q r b(2) b(3) show ?thesis by (intro conjI)
qed

theorem sync_places_beams_witness:
  "mesh turnedBall = Some (the (mesh turnedBall))
   \<and> 0 < length (beams sampleSystem)
   \<and> 0 < length (holes turnedBall)
   \<and> bm_position (beam_mesh (beams (syncWithDiscoBall threeModel (Some turnedBall) sampleSystem) ! 0))
       = add (applyQuaternion threeModel (hole_position (holes turnedBall ! 0))
                (setFromEuler threeModel (mesh_rotation (the (mesh turnedBall)))))
             (mesh_position (the (mesh turnedBall)))
   \<and> bm_quaternion (beam_mesh (beams (syncWithDiscoBall threeModel (Some turnedBall) sampleSystem) ! 0))
       = setFromUnitVectors threeModel (Vector3 0 1 0)
           (applyQuaternion threeModel (hole_direction (holes turnedBall ! 0))
              (setFromEuler threeModel (mesh_rotation (the (mesh turnedBall)))))"
proof -
  have h2: "mesh turnedBall = Some (the (mesh turnedBall))" by (rule turnedBall_facts)
  have h3: "0 < length (beams sampleSystem)" by (simp add: sampleSystem_beams)
  have h4: "0 < length (holes turnedBall)" by (simp add: turnedBall_facts)
  from sync_places_beams[OF refl h2 h3 h4 refl refl refl, of threeModel] h2 h3 h4
  show ?thesis by blast
qed

end
